theory Spec2Isabelle
  imports Main "HOL-Library.Word" "HOL-Library.Log_Nat"
begin

text \<open>
  A shallow embedding of the module \<^verbatim>\<open>src/modules/tts-client-wrapper.ts\<close> of the
  Obsidian Edge TTS plugin: the Prosody Normalizer (\<^verbatim>\<open>createProsodyOptions\<close>), the
  Push-Stream Adapter (\<^verbatim>\<open>SimpleStreamAdapter\<close>), the HTTP-Streaming Adapter
  (\<^verbatim>\<open>DeepgramTTSClient\<close>), the Generator-Backed Adapter (\<^verbatim>\<open>UniversalTTSClient\<close>) and
  the Client Selector (\<^verbatim>\<open>getVoiceForSettings\<close>). Asynchronous code is modelled in small
  steps: a session is a state, the consumer registers listeners, and the scheduler
  resumes the suspended function; the producers (the network, the provider's generator)
  are functions that answer the \<open>n\<close>-th request, so they need not ever end. The
  listeners are part of the environment as well: a listener returns or throws.
\<close>

section \<open>JavaScript strings\<close>

text \<open>
  A JavaScript string is a sequence of UTF-16 code units. String literals of the source
  are ASCII; \<open>js\<close> embeds such a literal, one code unit per character.
\<close>

type_synonym jschar = "16 word"
type_synonym jsstring = "jschar list"

definition js :: "string \<Rightarrow> jsstring" where
  "js s = map (\<lambda>c. word_of_nat (of_char c)) s"

text \<open>
  \<^verbatim>\<open>String.prototype.trim\<close> removes leading and trailing code units that are
  WhiteSpace or LineTerminator in ECMAScript: TAB, LF, VT, FF, CR, SP, NBSP, U+1680,
  U+2000 to U+200A, U+2028, U+2029, U+202F, U+205F, U+3000 and U+FEFF.
\<close>

definition isWhiteSpace :: "jschar \<Rightarrow> bool" where
  "isWhiteSpace c \<longleftrightarrow>
     c \<in> {0x0009, 0x000A, 0x000B, 0x000C, 0x000D, 0x0020, 0x00A0, 0x1680,
           0x2028, 0x2029, 0x202F, 0x205F, 0x3000, 0xFEFF}
     \<or> (0x2000 \<le> c \<and> c \<le> 0x200A)"

definition trim :: "jsstring \<Rightarrow> jsstring" where
  "trim s = rev (dropWhile isWhiteSpace (rev (dropWhile isWhiteSpace s)))"

text \<open>
  \<^verbatim>\<open>a || b\<close> on a string that may be \<^verbatim>\<open>undefined\<close>: the empty string and
  \<^verbatim>\<open>undefined\<close> are falsy, every other string is truthy.
\<close>

definition str_or :: "jsstring option \<Rightarrow> jsstring \<Rightarrow> jsstring" where
  "str_or a b = (case a of None \<Rightarrow> b | Some s \<Rightarrow> if s = [] then b else s)"

definition str_truthy :: "jsstring option \<Rightarrow> bool" where
  "str_truthy a \<longleftrightarrow> (case a of None \<Rightarrow> False | Some s \<Rightarrow> s \<noteq> [])"

text \<open>Blank, in the words of the specification: empty or whitespace only.\<close>

definition blank :: "jsstring \<Rightarrow> bool" where
  "blank s \<longleftrightarrow> list_all isWhiteSpace s"


section \<open>Client Selector: the effective voice\<close>

text \<open>
  Modelled from the spec: the declaration of \<^verbatim>\<open>EdgeTTSPluginSettings\<close> (module
  \<^verbatim>\<open>./settings\<close>) is not among the sources. The record has the fields the
  specification lists and the code reads. \<^verbatim>\<open>deepgramApiKey\<close> and \<^verbatim>\<open>deepgramModel\<close>
  may be \<^verbatim>\<open>undefined\<close> (the code guards both with \<^verbatim>\<open>||\<close>); \<^verbatim>\<open>customVoice\<close> is a
  string (the code calls \<^verbatim>\<open>trim\<close> on it directly).
\<close>

record EdgeTTSPluginSettings =
  ttsEngine :: jsstring
  selectedVoice :: jsstring
  customVoice :: jsstring
  deepgramApiKey :: "jsstring option"
  deepgramModel :: "jsstring option"

definition default_model :: jsstring where
  "default_model = js ''aura-asteria-en''"

text \<open>
  \<^verbatim>\<open>
  export function getVoiceForSettings(settings) {
    if (settings.ttsEngine === 'deepgram') {
      return (settings.deepgramModel || 'aura-asteria-en').trim() || 'aura-asteria-en';
    }
    return settings.customVoice.trim() || settings.selectedVoice;
  }
  \<close>
\<close>

definition getVoiceForSettings :: "EdgeTTSPluginSettings \<Rightarrow> jsstring" where
  "getVoiceForSettings settings =
     (if ttsEngine settings = js ''deepgram''
      then str_or (Some (trim (str_or (deepgramModel settings) default_model))) default_model
      else str_or (Some (trim (customVoice settings))) (selectedVoice settings))"


section \<open>JavaScript numbers\<close>

text \<open>
  A JavaScript number is an IEEE 754 double. \<open>Finite m e\<close> stands for the finite value
  \<open>m * 2 ^ e\<close>; every finite double has this form. Negative zero is identified with
  zero: no operation modelled here tells them apart (\<^verbatim>\<open>-0 !== 0\<close> is false,
  \<^verbatim>\<open>-0 > 0\<close> is false, and \<^verbatim>\<open>-0\<close> prints as \<^verbatim>\<open>0\<close>).
\<close>

datatype number = NaN | PosInf | NegInf | Finite int int

text \<open>\<open>round_even m k\<close> is \<open>m / 2 ^ k\<close> rounded to the nearest integer, ties to even.\<close>

definition round_even :: "int \<Rightarrow> nat \<Rightarrow> int" where
  "round_even m k =
     (let q = m div 2 ^ k; r = m mod 2 ^ k
      in if 2 * r < 2 ^ k then q
         else if 2 ^ k < 2 * r then q + 1
         else if even q then q else q + 1)"

text \<open>
  \<open>to_double m e\<close> is the double nearest to \<open>m * 2 ^ e\<close> (round to nearest, ties to
  even): the significand keeps 53 bits, the least exponent is \<open>-1074\<close> (gradual
  underflow), and a result of magnitude \<open>2 ^ 1024\<close> or more is an infinity.
\<close>

definition to_double :: "int \<Rightarrow> int \<Rightarrow> number" where
  "to_double m e =
     (let k = max (bitlen \<bar>m\<bar> - 53) (- 1074 - e);
          m' = (if k \<le> 0 then m else round_even m (nat k));
          e' = (if k \<le> 0 then e else e + k)
      in if 1024 < bitlen \<bar>m'\<bar> + e' then (if 0 < m' then PosInf else NegInf)
         else Finite m' e')"

text \<open>The value of a numeric literal \<open>n / d\<close> (\<open>0 < d\<close>): the nearest double.\<close>

definition double_of_ratio :: "int \<Rightarrow> int \<Rightarrow> number" where
  "double_of_ratio n d =
     (let s = nat (max 0 (bitlen d - bitlen \<bar>n\<bar> + 55));
          q = (\<bar>n\<bar> * 2 ^ s) div d;
          sticky = (if (\<bar>n\<bar> * 2 ^ s) mod d = 0 then 0 else 1)
      in to_double (sgn n * (2 * q + sticky)) (- int s - 1))"

text \<open>Subtraction and multiplication of doubles: the exact result, rounded.\<close>

fun num_sub :: "number \<Rightarrow> number \<Rightarrow> number" where
  "num_sub NaN y = NaN"
| "num_sub x NaN = NaN"
| "num_sub PosInf PosInf = NaN"
| "num_sub NegInf NegInf = NaN"
| "num_sub PosInf y = PosInf"
| "num_sub NegInf y = NegInf"
| "num_sub x PosInf = NegInf"
| "num_sub x NegInf = PosInf"
| "num_sub (Finite m1 e1) (Finite m2 e2) =
     (let e = min e1 e2
      in to_double (m1 * 2 ^ nat (e1 - e) - m2 * 2 ^ nat (e2 - e)) e)"

fun num_sgn :: "number \<Rightarrow> int" where
  "num_sgn NaN = 0"
| "num_sgn PosInf = 1"
| "num_sgn NegInf = - 1"
| "num_sgn (Finite m e) = sgn m"

fun num_mul :: "number \<Rightarrow> number \<Rightarrow> number" where
  "num_mul NaN y = NaN"
| "num_mul x NaN = NaN"
| "num_mul (Finite m1 e1) (Finite m2 e2) = to_double (m1 * m2) (e1 + e2)"
| "num_mul x y =
     (if num_sgn x * num_sgn y = 0 then NaN
      else if 0 < num_sgn x * num_sgn y then PosInf else NegInf)"

text \<open>\<^verbatim>\<open>x > y\<close> and \<^verbatim>\<open>x === y\<close> on numbers; a comparison with \<^verbatim>\<open>NaN\<close> is false.\<close>

fun num_gt :: "number \<Rightarrow> number \<Rightarrow> bool" where
  "num_gt NaN y = False"
| "num_gt x NaN = False"
| "num_gt PosInf y = (y \<noteq> PosInf)"
| "num_gt NegInf y = False"
| "num_gt x PosInf = False"
| "num_gt x NegInf = True"
| "num_gt (Finite m1 e1) (Finite m2 e2) =
     (let e = min e1 e2 in m2 * 2 ^ nat (e2 - e) < m1 * 2 ^ nat (e1 - e))"

fun num_eq :: "number \<Rightarrow> number \<Rightarrow> bool" where
  "num_eq PosInf PosInf = True"
| "num_eq NegInf NegInf = True"
| "num_eq (Finite m1 e1) (Finite m2 e2) =
     (let e = min e1 e2 in m1 * 2 ^ nat (e1 - e) = m2 * 2 ^ nat (e2 - e))"
| "num_eq x y = False"

text \<open>
  \<^verbatim>\<open>Math.round\<close>: the nearest integer, a tie going towards plus infinity, that is
  \<open>\<lfloor>x + 1/2\<rfloor>\<close>; \<^verbatim>\<open>NaN\<close> and the infinities are returned unchanged.
\<close>

fun Math_round :: "number \<Rightarrow> number" where
  "Math_round (Finite m e) =
     (if 0 \<le> e then Finite m e
      else Finite ((2 * m + 2 ^ nat (- e)) div 2 ^ Suc (nat (- e))) 0)"
| "Math_round x = x"

text \<open>
  The runtime, as far as the module depends on it. The source reads two facts of the
  environment when it is loaded: whether a global \<^verbatim>\<open>Buffer\<close> exists and whether a
  \<^verbatim>\<open>window\<close> exists. Two library functions are taken as parameters:
  \<^verbatim>\<open>TextEncoder.encode\<close>, and the digits that \<^verbatim>\<open>Number::toString\<close> prints for
  a number \<open>m * 2 ^ e\<close> that is not an integer of magnitude below \<open>2 ^ 53\<close> (the
  shortest digits that read back as the same double, in exponential notation from
  \<open>10 ^ 21\<close> on). \<open>fetch_missing\<close> is \<open>None\<close> where the global \<^verbatim>\<open>fetch\<close> exists, and
  otherwise the message of the \<^verbatim>\<open>ReferenceError\<close> that a call of it throws;
  \<open>URIError_message\<close> is the message of the \<^verbatim>\<open>URIError\<close> that
  \<^verbatim>\<open>encodeURIComponent\<close> throws. Both messages depend on the engine.
\<close>

record platform =
  hasNativeBuffer :: bool
  hasWindow :: bool
  TextEncoder_encode :: "jsstring \<Rightarrow> 8 word list"
  Number_toString_other :: "int \<Rightarrow> int \<Rightarrow> jsstring"
  fetch_missing :: "jsstring option"
  URIError_message :: jsstring

text \<open>The decimal digits of a natural number, as a string.\<close>

fun decimal :: "nat \<Rightarrow> jsstring" where
  "decimal n =
     (if n < 10 then [word_of_nat (48 + n)]
      else decimal (n div 10) @ [word_of_nat (48 + n mod 10)])"

declare decimal.simps [simp del]

text \<open>The integer a number stands for, when it is finite and integral.\<close>

fun int_of :: "number \<Rightarrow> int option" where
  "int_of (Finite m e) =
     (if 0 \<le> e then Some (m * 2 ^ nat e)
      else if 2 ^ nat (- e) dvd m then Some (m div 2 ^ nat (- e))
      else None)"
| "int_of x = None"

text \<open>
  \<^verbatim>\<open>`${x}`\<close> for a number: \<^verbatim>\<open>NaN\<close>, \<^verbatim>\<open>Infinity\<close>, \<^verbatim>\<open>-Infinity\<close>, and for a
  finite number the shortest decimal digits that read back as the same double. For an
  integer of magnitude below \<open>2 ^ 53\<close> these are its own digits (every integer of that
  range is a double, so no shorter numeral reads back as it); above that they are not
  (the double \<open>299999999999999872\<close> prints as \<^verbatim>\<open>299999999999999900\<close>), and the
  digits are the platform's.
\<close>

fun Number_toString :: "platform \<Rightarrow> number \<Rightarrow> jsstring" where
  "Number_toString pf NaN = js ''NaN''"
| "Number_toString pf PosInf = js ''Infinity''"
| "Number_toString pf NegInf = js ''-Infinity''"
| "Number_toString pf (Finite m e) =
     (case int_of (Finite m e) of
        Some n \<Rightarrow>
          if \<bar>n\<bar> < 2 ^ 53
          then (if n < 0 then js ''-'' @ decimal (nat (- n)) else decimal (nat n))
          else Number_toString_other pf m e
      | None \<Rightarrow> Number_toString_other pf m e)"


section \<open>Prosody Normalizer\<close>

text \<open>
  \<^verbatim>\<open>
  export function createProsodyOptions(rate?: number): any {
    const prosody: any = {};
    if (rate !== undefined) {
      const percentage = Math.round((rate - 1) * 100);
      if (percentage !== 0) {
        prosody.rate = percentage > 0 ? `+${percentage}%` : `${percentage}%`;
      }
    }
    return prosody;
  }
  \<close>
  The result is the \<^verbatim>\<open>rate\<close> field of the returned object, \<open>None\<close> when the object
  has no such field.
\<close>

definition percentage_of :: "number \<Rightarrow> number" where
  "percentage_of rate = Math_round (num_mul (num_sub rate (Finite 1 0)) (Finite 100 0))"

definition createProsodyOptions :: "platform \<Rightarrow> number option \<Rightarrow> jsstring option" where
  "createProsodyOptions pf rate =
     (case rate of
        None \<Rightarrow> None
      | Some r \<Rightarrow>
          (let percentage = percentage_of r
           in if \<not> num_eq percentage (Finite 0 0)
              then Some (if num_gt percentage (Finite 0 0)
                         then js ''+'' @ Number_toString pf percentage @ js ''%''
                         else Number_toString pf percentage @ js ''%'')
              else None))"


section \<open>Events, listeners and effects\<close>

type_synonym bytes = "8 word list"

text \<open>A thrown value: an \<^verbatim>\<open>Error\<close> object with its message, or any other value.\<close>

datatype thrown = JsError jsstring | NonError

text \<open>
  What an event carries to its listeners: \<^verbatim>\<open>emit('data', chunk)\<close> passes one byte
  array, \<^verbatim>\<open>emit('error', error)\<close> the thrown value, \<^verbatim>\<open>emit('end')\<close> nothing.
\<close>

datatype arg = Chunk bytes | Thrown thrown

datatype console_entry = ConsoleWarn jsstring | ConsoleError jsstring

text \<open>
  Both stream handles keep \<^verbatim>\<open>listeners: Map<string, Array<callback>>\<close>. Callbacks are
  opaque values of a type \<open>'cb\<close>. What a handle does to the outside is recorded in three
  histories, which are not fields of the source objects: \<open>invoked\<close>, the callback calls
  made (the callback with its arguments), \<open>emitted\<close>, the calls of \<^verbatim>\<open>emit\<close>, and
  \<open>console\<close>, the messages written to the console.
\<close>

record 'cb handle =
  listeners :: "jsstring \<rightharpoonup> 'cb list"
  invoked :: "('cb \<times> arg list) list"
  emitted :: "(jsstring \<times> arg list) list"
  console :: "console_entry list"

text \<open>
  A callback is code of the consumer: a call of it returns or throws. The behaviour of
  the callbacks is a parameter \<open>call\<close> of everything that invokes one:
  \<open>call h callback args\<close> is the outcome of \<^verbatim>\<open>callback(...args)\<close> when the calls \<open>h\<close>
  were made before, \<open>None\<close> if it returns and \<open>Some e\<close> if it throws \<open>e\<close>. As the history
  grows with every call, \<open>call\<close> can stand for any sequence of outcomes. What a callback
  cannot do in this model is to call the methods of the handle while it runs.
\<close>

type_synonym 'cb behaviour = "('cb \<times> arg list) list \<Rightarrow> 'cb \<Rightarrow> arg list \<Rightarrow> thrown option"

text \<open>
  \<^verbatim>\<open>callbacks.forEach((callback) => callback(...args))\<close>: the callbacks are called in
  order; the first one that throws ends the loop, and \<^verbatim>\<open>forEach\<close> throws what it threw.
  The result is the thrown value, if any, and the history of calls.
\<close>

fun forEach ::
  "'cb behaviour \<Rightarrow> 'cb list \<Rightarrow> arg list \<Rightarrow> ('cb \<times> arg list) list
     \<Rightarrow> thrown option \<times> ('cb \<times> arg list) list" where
  "forEach call [] args h = (None, h)"
| "forEach call (callback # callbacks) args h =
     (case call h callback args of
        None \<Rightarrow> forEach call callbacks args (h @ [(callback, args)])
      | Some e \<Rightarrow> (Some e, h @ [(callback, args)]))"

text \<open>
  \<^verbatim>\<open>
  if (!this.listeners.has(event)) { this.listeners.set(event, []); }
  this.listeners.get(event)!.push(callback);
  \<close>
\<close>

definition add_listener ::
  "jsstring \<Rightarrow> 'cb \<Rightarrow> (jsstring \<rightharpoonup> 'cb list) \<Rightarrow> (jsstring \<rightharpoonup> 'cb list)" where
  "add_listener event callback m =
     (let m1 = (if m event = None then m(event \<mapsto> []) else m)
      in case m1 event of None \<Rightarrow> m1 | Some cs \<Rightarrow> m1(event \<mapsto> cs @ [callback]))"

text \<open>\<^verbatim>\<open>this.listeners.get(event) || []\<close>\<close>

definition callbacks_of :: "jsstring \<Rightarrow> (jsstring \<rightharpoonup> 'cb list) \<Rightarrow> 'cb list" where
  "callbacks_of event m = (case m event of None \<Rightarrow> [] | Some cs \<Rightarrow> cs)"


section \<open>Push-Stream Adapter of the HTTP backend\<close>

record 'cb SimpleStreamAdapter = "'cb handle" +
  hasEnded :: bool

text \<open>
  \<^verbatim>\<open>
  on(event, callback) {
    ... this.listeners.get(event)!.push(callback);
    if (event === 'end' && this.hasEnded) { callback(); }
  }
  emit(event, ...args) {
    if (event === 'end') { this.hasEnded = true; }
    const callbacks = this.listeners.get(event) || [];
    callbacks.forEach((callback) => callback(...args));
  }
  \<close>
  Both methods return the value thrown to their caller, if any, and the new state.
\<close>

definition SimpleStreamAdapter_on ::
  "'cb behaviour \<Rightarrow> jsstring \<Rightarrow> 'cb \<Rightarrow> ('cb, 'z) SimpleStreamAdapter_scheme
     \<Rightarrow> thrown option \<times> ('cb, 'z) SimpleStreamAdapter_scheme" where
  "SimpleStreamAdapter_on call event callback a =
     (let a1 = a\<lparr>listeners := add_listener event callback (listeners a)\<rparr>
      in if event = js ''end'' \<and> hasEnded a1
         then (call (invoked a1) callback [], a1\<lparr>invoked := invoked a1 @ [(callback, [])]\<rparr>)
         else (None, a1))"

definition SimpleStreamAdapter_emit ::
  "'cb behaviour \<Rightarrow> jsstring \<Rightarrow> arg list \<Rightarrow> ('cb, 'z) SimpleStreamAdapter_scheme
     \<Rightarrow> thrown option \<times> ('cb, 'z) SimpleStreamAdapter_scheme" where
  "SimpleStreamAdapter_emit call event args a =
     (let a1 = (if event = js ''end'' then a\<lparr>hasEnded := True\<rparr> else a);
          (outcome, h) = forEach call (callbacks_of event (listeners a1)) args (invoked a1)
      in (outcome, a1\<lparr>emitted := emitted a1 @ [(event, args)], invoked := h\<rparr>))"


section \<open>HTTP-Streaming Adapter\<close>

datatype audio_format = Mp3 | Opus

record DeepgramTTSClient =
  apiKey :: jsstring
  model :: jsstring
  format :: audio_format
  baseUrl :: jsstring

text \<open>\<^verbatim>\<open>s.replace(/\/+$/, '')\<close>: the string without its trailing slashes.\<close>

definition strip_trailing_slashes :: "jsstring \<Rightarrow> jsstring" where
  "strip_trailing_slashes s = rev (dropWhile (\<lambda>c. c = 0x2F) (rev s))"

text \<open>
  \<^verbatim>\<open>
  constructor(options: { apiKey: string; model?: string; baseUrl?: string }) {
    this.apiKey = (options.apiKey || '').trim();
    this.model = (options.model || 'aura-asteria-en').trim();
    this.baseUrl = (options.baseUrl || 'https://api.deepgram.com').replace(/\/+$/, '');
  }
  \<close>
  The three arguments are the fields of \<^verbatim>\<open>options\<close>, \<open>None\<close> for an absent one.
\<close>

definition new_DeepgramTTSClient ::
  "jsstring option \<Rightarrow> jsstring option \<Rightarrow> jsstring option \<Rightarrow> DeepgramTTSClient" where
  "new_DeepgramTTSClient options_apiKey options_model options_baseUrl =
     \<lparr>apiKey = trim (str_or options_apiKey []),
      model = trim (str_or options_model default_model),
      format = Mp3,
      baseUrl = strip_trailing_slashes (str_or options_baseUrl (js ''https://api.deepgram.com''))\<rparr>"

text \<open>
  \<^verbatim>\<open>encodeURIComponent\<close> throws a \<^verbatim>\<open>URIError\<close> for a string with an unpaired surrogate:
  a code unit in D800 to DBFF that is not followed by one in DC00 to DFFF, or a code
  unit in DC00 to DFFF that does not follow one in D800 to DBFF.
\<close>

definition isHighSurrogate :: "jschar \<Rightarrow> bool" where
  "isHighSurrogate c \<longleftrightarrow> 0xD800 \<le> c \<and> c \<le> 0xDBFF"

definition isLowSurrogate :: "jschar \<Rightarrow> bool" where
  "isLowSurrogate c \<longleftrightarrow> 0xDC00 \<le> c \<and> c \<le> 0xDFFF"

fun well_formed :: "jsstring \<Rightarrow> bool" where
  "well_formed [] = True"
| "well_formed [c] = (\<not> isHighSurrogate c \<and> \<not> isLowSurrogate c)"
| "well_formed (c # d # cs) =
     (if isHighSurrogate c then isLowSurrogate d \<and> well_formed cs
      else \<not> isLowSurrogate c \<and> well_formed (d # cs))"

text \<open>
  The request that \<^verbatim>\<open>fetch\<close> is called with, kept as the parts the source assembles it
  from: the URL is \<^verbatim>\<open>`${baseUrl}/v1/speak?model=${encodeURIComponent(model)}&encoding=${format}`\<close>,
  the header \<^verbatim>\<open>Authorization: Token ${apiKey}\<close>, the body the JSON of
  \<^verbatim>\<open>{ text, speed? }\<close>.
\<close>

record request =
  url_base :: jsstring
  url_model :: jsstring
  url_encoding :: audio_format
  authorization_token :: jsstring
  body_text :: jsstring
  body_speed :: "number option"

text \<open>What the network answers: the outcome of \<^verbatim>\<open>fetch\<close> and of each \<^verbatim>\<open>reader.read()\<close>.\<close>

datatype read_result = ReadDone | ReadValue "bytes option" | ReadThrows thrown

text \<open>
  \<open>body\<close> is \<open>None\<close> when \<^verbatim>\<open>response.body\<close> is null; otherwise it gives, for
  \<open>n = 1, 2, ...\<close>, the outcome of the \<open>n\<close>-th call of \<^verbatim>\<open>read()\<close>. \<open>ReadValue None\<close> is
  a read that is not done and has no value.
\<close>

record response =
  status :: nat
  statusText :: jsstring
  body :: "(nat \<Rightarrow> read_result) option"

text \<open>\<^verbatim>\<open>response.ok\<close>: the status is in the range 200 to 299.\<close>

definition ok :: "response \<Rightarrow> bool" where
  "ok r \<longleftrightarrow> 200 \<le> status r \<and> status r \<le> 299"

datatype fetch_result = FetchRejected thrown | FetchResolved response

text \<open>
  Where the asynchronous function of \<^verbatim>\<open>toStream\<close> is suspended: at
  \<^verbatim>\<open>await fetch(...)\<close>, at the \<open>n\<close>-th \<^verbatim>\<open>await reader.read()\<close> of the reader it
  holds, or not at all: it has returned, or it has thrown out of its \<^verbatim>\<open>catch\<close> block
  (its promise is dropped by \<^verbatim>\<open>toStream\<close>, so nothing observes the difference).
\<close>

datatype http_task = AwaitFetch | AwaitRead "nat \<Rightarrow> read_result" nat | TaskDone

record 'cb deepgram_session = "'cb SimpleStreamAdapter" +
  task :: http_task

text \<open>
  The \<^verbatim>\<open>catch\<close> block of the asynchronous function:
  \<^verbatim>\<open>
  console.error('Deepgram TTS streaming error:', error);
  streamAdapter.emit('error', error);
  streamAdapter.emit('end');
  \<close>
  When a listener for \<^verbatim>\<open>error\<close> throws, \<^verbatim>\<open>emit('error', error)\<close> throws and
  \<^verbatim>\<open>emit('end')\<close> is not reached.
\<close>

definition deepgram_catch ::
  "'cb behaviour \<Rightarrow> thrown \<Rightarrow> 'cb deepgram_session \<Rightarrow> 'cb deepgram_session" where
  "deepgram_catch call error s =
     (let s1 = s\<lparr>console := console s @ [ConsoleError (js ''Deepgram TTS streaming error:'')]\<rparr>;
          (thrown1, s2) = SimpleStreamAdapter_emit call (js ''error'') [Thrown error] s1
      in case thrown1 of
           Some e \<Rightarrow> s2\<lparr>task := TaskDone\<rparr>
         | None \<Rightarrow> (snd (SimpleStreamAdapter_emit call (js ''end'') [] s2))\<lparr>task := TaskDone\<rparr>)"

text \<open>
  \<^verbatim>\<open>
  toStream(text, prosodyOptions?) {
    if (!this.apiKey) {
      throw new Error('Deepgram API key is not set. Add it in the plugin settings.');
    }
    const streamAdapter = new SimpleStreamAdapter();
    const url = `${this.baseUrl}/v1/speak?model=${encodeURIComponent(this.model)}&encoding=${this.format}`;
    const requestBody = { text };
    if (prosodyOptions && typeof prosodyOptions.rate === 'number'
        && prosodyOptions.rate > 0 && prosodyOptions.rate !== 1) {
      requestBody.speed = prosodyOptions.rate;
    }
    (async () => { try { const response = await fetch(url, ...); ... } catch (error) { ... } })();
    return streamAdapter;
  }
  \<close>
  \<open>prosodyRate\<close> is \<^verbatim>\<open>prosodyOptions.rate\<close> when \<^verbatim>\<open>prosodyOptions\<close> is given and its
  rate is a number, \<open>None\<close> otherwise. The result is the thrown error or the stream
  handle, together with the requests handed to \<^verbatim>\<open>fetch\<close> before \<^verbatim>\<open>toStream\<close>
  returns: the asynchronous function runs up to its first \<^verbatim>\<open>await\<close> at once. Where
  there is no \<^verbatim>\<open>fetch\<close>, the call of it throws inside the \<^verbatim>\<open>try\<close>, and the
  \<^verbatim>\<open>catch\<close> block runs before \<^verbatim>\<open>toStream\<close> returns, when no listener is registered
  yet (so the behaviour of the listeners does not matter there).
\<close>

definition DeepgramTTSClient_toStream ::
  "platform \<Rightarrow> DeepgramTTSClient \<Rightarrow> jsstring \<Rightarrow> number option
     \<Rightarrow> (thrown + 'cb deepgram_session) \<times> request list" where
  "DeepgramTTSClient_toStream pf client text prosodyRate =
     (if apiKey client = []
      then (Inl (JsError (js ''Deepgram API key is not set. Add it in the plugin settings.'')), [])
      else if \<not> well_formed (model client)
      then (Inl (JsError (URIError_message pf)), [])
      else
        (let streamAdapter =
               \<lparr>listeners = Map.empty, invoked = [], emitted = [], console = [],
                hasEnded = False, task = AwaitFetch\<rparr>;
             requestBody_speed =
               (case prosodyRate of
                  None \<Rightarrow> None
                | Some rate \<Rightarrow>
                    if num_gt rate (Finite 0 0) \<and> \<not> num_eq rate (Finite 1 0)
                    then Some rate else None)
         in case fetch_missing pf of
              None \<Rightarrow>
                (Inr streamAdapter,
                 [\<lparr>url_base = baseUrl client, url_model = model client,
                   url_encoding = format client, authorization_token = apiKey client,
                   body_text = text, body_speed = requestBody_speed\<rparr>])
            | Some message \<Rightarrow>
                (Inr (deepgram_catch (\<lambda>h callback args. None) (JsError message) streamAdapter),
                 [])))"

text \<open>
  One resumption of the asynchronous function: the awaited promise has settled, and the
  function runs to its next \<^verbatim>\<open>await\<close> or to its end.
  \<^verbatim>\<open>
  try {
    const response = await fetch(url, ...);
    if (!response.ok) {
      throw new Error(`Deepgram TTS request failed (${response.status}: ${response.statusText})`);
    }
    const reader = response.body?.getReader();
    if (!reader) { throw new Error('Deepgram response stream is not readable.'); }
    while (true) {
      const { done, value } = await reader.read();
      if (done) break;
      if (value) { streamAdapter.emit('data', value); }
    }
    streamAdapter.emit('end');
  } catch (error) { ... }
  \<close>
  Both calls of \<^verbatim>\<open>emit\<close> are inside the \<^verbatim>\<open>try\<close>: what a listener for \<^verbatim>\<open>data\<close> or
  \<^verbatim>\<open>end\<close> throws is caught by the \<^verbatim>\<open>catch\<close> block.
\<close>

definition request_failed :: "response \<Rightarrow> thrown" where
  "request_failed r =
     JsError (js ''Deepgram TTS request failed ('' @ decimal (status r) @ js '': ''
              @ statusText r @ js '')'')"

definition deepgram_resume ::
  "'cb behaviour \<Rightarrow> fetch_result \<Rightarrow> 'cb deepgram_session \<Rightarrow> 'cb deepgram_session" where
  "deepgram_resume call net s =
     (case task s of
        AwaitFetch \<Rightarrow>
          (case net of
             FetchRejected error \<Rightarrow> deepgram_catch call error s
           | FetchResolved r \<Rightarrow>
               if \<not> ok r then deepgram_catch call (request_failed r) s
               else (case body r of
                       None \<Rightarrow> deepgram_catch call
                                 (JsError (js ''Deepgram response stream is not readable.'')) s
                     | Some reader \<Rightarrow> s\<lparr>task := AwaitRead reader 1\<rparr>))
      | AwaitRead reader n \<Rightarrow>
          (case reader n of
             ReadThrows error \<Rightarrow> deepgram_catch call error s
           | ReadDone \<Rightarrow>
               (case SimpleStreamAdapter_emit call (js ''end'') [] s of
                  (None, s1) \<Rightarrow> s1\<lparr>task := TaskDone\<rparr>
                | (Some e, s1) \<Rightarrow> deepgram_catch call e s1)
           | ReadValue None \<Rightarrow> s\<lparr>task := AwaitRead reader (Suc n)\<rparr>
           | ReadValue (Some v) \<Rightarrow>
               (case SimpleStreamAdapter_emit call (js ''data'') [Chunk v] s of
                  (None, s1) \<Rightarrow> s1\<lparr>task := AwaitRead reader (Suc n)\<rparr>
                | (Some e, s1) \<Rightarrow> deepgram_catch call e s1))
      | TaskDone \<Rightarrow> s)"

text \<open>
  What happens to a session after \<^verbatim>\<open>toStream\<close> returned it: the consumer registers
  listeners, and the scheduler resumes the asynchronous function, in any order. What a
  late \<^verbatim>\<open>end\<close> listener throws out of \<^verbatim>\<open>on\<close> goes to the consumer that called it.
\<close>

datatype 'cb action = Register jsstring 'cb | Resume

fun deepgram_step ::
  "'cb behaviour \<Rightarrow> fetch_result \<Rightarrow> 'cb action \<Rightarrow> 'cb deepgram_session \<Rightarrow> 'cb deepgram_session" where
  "deepgram_step call net (Register event callback) s =
     snd (SimpleStreamAdapter_on call event callback s)"
| "deepgram_step call net Resume s = deepgram_resume call net s"

fun deepgram_run ::
  "'cb behaviour \<Rightarrow> fetch_result \<Rightarrow> 'cb action list \<Rightarrow> 'cb deepgram_session
     \<Rightarrow> 'cb deepgram_session" where
  "deepgram_run call net [] s = s"
| "deepgram_run call net (a # as) s = deepgram_run call net as (deepgram_step call net a s)"


section \<open>Generator-Backed Adapter\<close>

text \<open>
  The payload \<^verbatim>\<open>chunk.data\<close> of a chunk, by the distinctions the source makes:
  an instance of \<^verbatim>\<open>Uint8Array\<close> (a Node \<^verbatim>\<open>Buffer\<close> of the same realm is one), an
  \<^verbatim>\<open>ArrayBuffer\<close>, an object that \<^verbatim>\<open>Buffer.isBuffer\<close> accepts although it is neither
  (a buffer of another realm), any other object, and the primitive values (a symbol or
  a bigint other than zero behaves as a non-empty string does, the bigint zero as the
  empty string).
\<close>

datatype payload =
    Uint8ArrayP bytes
  | ArrayBufferP bytes
  | ForeignBufferP bytes
  | ObjectP
  | StringP jsstring
  | NumberP number
  | BooleanP bool
  | NullP
  | UndefinedP

datatype chunk = AsyncChunk (chunk_type: jsstring) (chunk_data: payload)

text \<open>Truthiness, as \<^verbatim>\<open>chunk.type === 'audio' && chunk.data\<close> tests it.\<close>

fun truthy :: "payload \<Rightarrow> bool" where
  "truthy (StringP s) = (s \<noteq> [])"
| "truthy (NumberP NaN) = False"
| "truthy (NumberP (Finite m e)) = (m \<noteq> 0)"
| "truthy (NumberP x) = True"
| "truthy (BooleanP b) = b"
| "truthy NullP = False"
| "truthy UndefinedP = False"
| "truthy x = True"

fun instanceof_Uint8Array :: "payload \<Rightarrow> bool" where
  "instanceof_Uint8Array (Uint8ArrayP b) = True"
| "instanceof_Uint8Array x = False"

fun instanceof_ArrayBuffer :: "payload \<Rightarrow> bool" where
  "instanceof_ArrayBuffer (ArrayBufferP b) = True"
| "instanceof_ArrayBuffer x = False"

fun isBuffer :: "payload \<Rightarrow> bool" where
  "isBuffer (ForeignBufferP b) = True"
| "isBuffer x = False"

fun typeof_object :: "payload \<Rightarrow> bool" where
  "typeof_object (Uint8ArrayP b) = True"
| "typeof_object (ArrayBufferP b) = True"
| "typeof_object (ForeignBufferP b) = True"
| "typeof_object ObjectP = True"
| "typeof_object NullP = True"
| "typeof_object x = False"

text \<open>The bytes of a binary payload, as \<^verbatim>\<open>new Uint8Array(data)\<close> copies them.\<close>

fun bytes_of :: "payload \<Rightarrow> bytes" where
  "bytes_of (Uint8ArrayP b) = b"
| "bytes_of (ArrayBufferP b) = b"
| "bytes_of (ForeignBufferP b) = b"
| "bytes_of x = []"

text \<open>
  \<^verbatim>\<open>
  let BufferPolyfill: any;
  if (typeof Buffer === 'undefined' && typeof window !== 'undefined') {
    BufferPolyfill = {
      from: (data) => {
        if (data instanceof ArrayBuffer) { return new Uint8Array(data); }
        if (data instanceof Uint8Array) { return data; }
        if (typeof data === 'string') { return new TextEncoder().encode(data); }
        return new Uint8Array(0);
      }, ... };
    (globalThis as any).Buffer = BufferPolyfill;
  }
  \<close>
  The polyfill that replaces a missing \<^verbatim>\<open>Buffer\<close> has no \<^verbatim>\<open>isBuffer\<close>.
\<close>

definition BufferPolyfill :: "platform \<Rightarrow> bool" where
  "BufferPolyfill pf \<longleftrightarrow> \<not> hasNativeBuffer pf \<and> hasWindow pf"

definition BufferPolyfill_from :: "platform \<Rightarrow> payload \<Rightarrow> bytes" where
  "BufferPolyfill_from pf data =
     (if instanceof_ArrayBuffer data then bytes_of data
      else if instanceof_Uint8Array data then bytes_of data
      else (case data of StringP s \<Rightarrow> TextEncoder_encode pf s | _ \<Rightarrow> []))"

text \<open>
  What the asynchronous generator answers: the outcome of the \<open>n\<close>-th call of
  \<^verbatim>\<open>next()\<close>, for \<open>n = 1, 2, ...\<close>. It is an async generator object, as a method
  \<^verbatim>\<open>async *stream()\<close> returns it, so it has a \<^verbatim>\<open>return\<close> method. A constructed
  \<^verbatim>\<open>Communicate\<close> object is modelled by what its \<^verbatim>\<open>stream()\<close> does: it throws, or
  returns a generator.
\<close>

datatype gen_result = GenYield chunk | GenReturn | GenThrows thrown

type_synonym generator = "nat \<Rightarrow> gen_result"

type_synonym communicate = "thrown + generator"

text \<open>
  The stream handle of \<^verbatim>\<open>UniversalTTSClient.toStream\<close>. \<open>asyncGenerator\<close> is the
  variable the handle's methods close over. Three fields are not fields of the source
  object but tell where \<^verbatim>\<open>consumeAsyncGenerator\<close> stands: \<open>pulled\<close> counts the calls
  of \<^verbatim>\<open>next()\<close> made so far; \<open>finished\<close> tells that the function has returned (or
  thrown out of its \<^verbatim>\<open>catch\<close> block: its promise is dropped); \<open>closing\<close> holds the
  value thrown inside the body of the loop while the function waits for the generator
  to close.
\<close>

record 'cb streamAdapter = "'cb handle" +
  isConsuming :: bool
  asyncGenerator :: generator
  pulled :: nat
  finished :: bool
  closing :: "thrown option"

text \<open>
  \<^verbatim>\<open>
  emit(event, ...args) {
    const callbacks = this.listeners.get(event) || [];
    callbacks.forEach((callback) => callback(...args));
  }
  \<close>
  The result is the value thrown to the caller, if any, and the new state.
\<close>

definition streamAdapter_emit ::
  "'cb behaviour \<Rightarrow> jsstring \<Rightarrow> arg list \<Rightarrow> 'cb streamAdapter
     \<Rightarrow> thrown option \<times> 'cb streamAdapter" where
  "streamAdapter_emit call event args a =
     (let (outcome, h) = forEach call (callbacks_of event (listeners a)) args (invoked a)
      in (outcome, a\<lparr>emitted := emitted a @ [(event, args)], invoked := h\<rparr>))"

text \<open>
  The part of \<^verbatim>\<open>consumeAsyncGenerator\<close> that runs at once when it is called:
  \<^verbatim>\<open>this.isConsuming = true\<close>, then \<^verbatim>\<open>for await\<close> calls \<^verbatim>\<open>next()\<close> for the
  first time and the function is suspended. No callback is called, so nothing is
  thrown to the caller of \<^verbatim>\<open>on\<close>.
\<close>

definition consumeAsyncGenerator :: "'cb streamAdapter \<Rightarrow> 'cb streamAdapter" where
  "consumeAsyncGenerator a = a\<lparr>isConsuming := True, pulled := Suc (pulled a)\<rparr>"

text \<open>
  \<^verbatim>\<open>
  on(event, callback) {
    ... this.listeners.get(event)!.push(callback);
    if (event === 'data' && !this.isConsuming) { this.consumeAsyncGenerator(); }
  }
  \<close>
\<close>

definition streamAdapter_on :: "jsstring \<Rightarrow> 'cb \<Rightarrow> 'cb streamAdapter \<Rightarrow> 'cb streamAdapter" where
  "streamAdapter_on event callback a =
     (let a1 = a\<lparr>listeners := add_listener event callback (listeners a)\<rparr>
      in if event = js ''data'' \<and> \<not> isConsuming a1 then consumeAsyncGenerator a1 else a1)"

text \<open>
  The conversion of an audio payload:
  \<^verbatim>\<open>
  if (chunk.data instanceof Uint8Array) { audioData = chunk.data; }
  else if (chunk.data instanceof ArrayBuffer) { audioData = new Uint8Array(chunk.data); }
  else if (typeof Buffer !== 'undefined' && Buffer.isBuffer && Buffer.isBuffer(chunk.data)) {
    audioData = new Uint8Array(chunk.data);
  } else if (BufferPolyfill && typeof chunk.data === 'object') {
    audioData = BufferPolyfill.from(chunk.data);
  } else {
    console.warn('Unexpected audio data type:', typeof chunk.data, chunk.data);
    audioData = new Uint8Array(0);
  }
  \<close>
  The result is \<^verbatim>\<open>audioData\<close> and the console messages written.
\<close>

definition audioData_of :: "platform \<Rightarrow> payload \<Rightarrow> bytes \<times> console_entry list" where
  "audioData_of pf data =
     (if instanceof_Uint8Array data then (bytes_of data, [])
      else if instanceof_ArrayBuffer data then (bytes_of data, [])
      else if hasNativeBuffer pf \<and> isBuffer data then (bytes_of data, [])
      else if BufferPolyfill pf \<and> typeof_object data then (BufferPolyfill_from pf data, [])
      else ([], [ConsoleWarn (js ''Unexpected audio data type:'')]))"

text \<open>
  The \<^verbatim>\<open>catch\<close> block of \<^verbatim>\<open>consumeAsyncGenerator\<close>:
  \<^verbatim>\<open>
  console.error('TTS stream: error consuming generator:', error);
  this.emit('error', error);
  \<close>
  What a listener for \<^verbatim>\<open>error\<close> throws leaves the function.
\<close>

definition consume_catch ::
  "'cb behaviour \<Rightarrow> thrown \<Rightarrow> 'cb streamAdapter \<Rightarrow> 'cb streamAdapter" where
  "consume_catch call error a =
     (snd (streamAdapter_emit call (js ''error'') [Thrown error]
             (a\<lparr>console := console a
                  @ [ConsoleError (js ''TTS stream: error consuming generator:'')]\<rparr>)))
     \<lparr>finished := True\<rparr>"

text \<open>
  One resumption of \<^verbatim>\<open>consumeAsyncGenerator\<close>: the promise it waits for has settled.
  \<^verbatim>\<open>
  try {
    for await (const chunk of asyncGenerator) {
      if (chunk.type === 'audio' && chunk.data) { ...; this.emit('data', audioData); }
    }
    this.emit('end');
  } catch (error) {
    console.error('TTS stream: error consuming generator:', error);
    this.emit('error', error);
  }
  \<close>
  Both calls of \<^verbatim>\<open>emit\<close> are inside the \<^verbatim>\<open>try\<close>. When a listener for \<^verbatim>\<open>data\<close>
  throws, the exception leaves the body of \<^verbatim>\<open>for await\<close>, which first closes the
  generator: it calls \<^verbatim>\<open>return()\<close> and awaits the result, whatever that is, and only
  then does the exception reach the \<^verbatim>\<open>catch\<close> block, at the next resumption. What a
  listener for \<^verbatim>\<open>end\<close> throws reaches the \<^verbatim>\<open>catch\<close> block at once: the loop is over.
\<close>

definition consume_resume ::
  "'cb behaviour \<Rightarrow> platform \<Rightarrow> 'cb streamAdapter \<Rightarrow> 'cb streamAdapter" where
  "consume_resume call pf a =
     (if isConsuming a \<and> \<not> finished a
      then (case closing a of
              Some error \<Rightarrow> consume_catch call error (a\<lparr>closing := None\<rparr>)
            | None \<Rightarrow>
                (case asyncGenerator a (pulled a) of
                   GenYield chunk \<Rightarrow>
                     if chunk_type chunk = js ''audio'' \<and> truthy (chunk_data chunk)
                     then (let (audioData, warnings) = audioData_of pf (chunk_data chunk)
                           in case streamAdapter_emit call (js ''data'') [Chunk audioData]
                                     (a\<lparr>console := console a @ warnings\<rparr>) of
                                (None, a1) \<Rightarrow> a1\<lparr>pulled := Suc (pulled a1)\<rparr>
                              | (Some e, a1) \<Rightarrow> a1\<lparr>closing := Some e\<rparr>)
                     else a\<lparr>pulled := Suc (pulled a)\<rparr>
                 | GenReturn \<Rightarrow>
                     (case streamAdapter_emit call (js ''end'') [] a of
                        (None, a1) \<Rightarrow> a1\<lparr>finished := True\<rparr>
                      | (Some e, a1) \<Rightarrow> consume_catch call e a1)
                 | GenThrows error \<Rightarrow> consume_catch call error a))
      else a)"

fun universal_step ::
  "'cb behaviour \<Rightarrow> platform \<Rightarrow> 'cb action \<Rightarrow> 'cb streamAdapter \<Rightarrow> 'cb streamAdapter" where
  "universal_step call pf (Register event callback) a = streamAdapter_on event callback a"
| "universal_step call pf Resume a = consume_resume call pf a"

fun universal_run ::
  "'cb behaviour \<Rightarrow> platform \<Rightarrow> 'cb action list \<Rightarrow> 'cb streamAdapter \<Rightarrow> 'cb streamAdapter" where
  "universal_run call pf [] a = a"
| "universal_run call pf (x # xs) a = universal_run call pf xs (universal_step call pf x a)"

text \<open>
  The options a \<^verbatim>\<open>Communicate\<close> object is constructed with, and the class itself: given
  the constructor calls made before, the text and the options, it throws or returns an
  object.
\<close>

record communicate_options =
  voice :: "jsstring option"
  rate :: "jsstring option"
  pitch :: "jsstring option"
  volume :: "jsstring option"

type_synonym constructor_call = "jsstring \<times> communicate_options"

type_synonym CommunicateClass =
  "constructor_call list \<Rightarrow> jsstring \<Rightarrow> communicate_options \<Rightarrow> thrown + communicate"

record UniversalTTSClient =
  CommunicateClass :: "CommunicateClass option"
  currentVoice :: "jsstring option"
  currentFormat :: "jsstring option"

text \<open>
  \<^verbatim>\<open>
  async setMetadata(voice, format) { this.currentVoice = voice; this.currentFormat = format; }
  \<close>
\<close>

definition UniversalTTSClient_setMetadata ::
  "jsstring \<Rightarrow> jsstring \<Rightarrow> UniversalTTSClient \<Rightarrow> UniversalTTSClient" where
  "UniversalTTSClient_setMetadata v f client =
     client\<lparr>currentVoice := Some v, currentFormat := Some f\<rparr>"

text \<open>
  What a call of \<^verbatim>\<open>toStream\<close> does: it throws or returns a stream handle; it calls the
  constructor of the provider class (\<open>constructed\<close>, in order); it writes to the console.
\<close>

record 'cb toStream_outcome =
  result :: "thrown + 'cb streamAdapter"
  constructed :: "constructor_call list"
  logged :: "console_entry list"

text \<open>
  The outer \<^verbatim>\<open>catch\<close>:
  \<^verbatim>\<open>
  console.error('Error creating TTS stream:', error);
  throw new Error(`Failed to create TTS stream: ${error instanceof Error ? error.message : 'Unknown error'}`);
  \<close>
\<close>

definition failed_to_create :: "thrown \<Rightarrow> thrown" where
  "failed_to_create error =
     JsError (js ''Failed to create TTS stream: ''
              @ (case error of JsError message \<Rightarrow> message | NonError \<Rightarrow> js ''Unknown error''))"

text \<open>
  After the \<^verbatim>\<open>Communicate\<close> object exists:
  \<^verbatim>\<open>
  const asyncGenerator = communicate.stream();
  const streamAdapter = { listeners: new Map(), on..., emit..., isConsuming: false, ... };
  return streamAdapter;
  \<close>
\<close>

definition stream_of ::
  "communicate \<Rightarrow> constructor_call list \<Rightarrow> console_entry list \<Rightarrow> 'cb toStream_outcome" where
  "stream_of communicate calls msgs =
     (case communicate of
        Inl error \<Rightarrow>
          \<lparr>result = Inl (failed_to_create error), constructed = calls,
           logged = msgs @ [ConsoleError (js ''Error creating TTS stream:'')]\<rparr>
      | Inr gen \<Rightarrow>
          \<lparr>result = Inr \<lparr>listeners = Map.empty, invoked = [], emitted = [], console = [],
                         isConsuming = False, asyncGenerator = gen, pulled = 0,
                         finished = False, closing = None\<rparr>,
           constructed = calls, logged = msgs\<rparr>)"

text \<open>
  \<^verbatim>\<open>
  toStream(text, prosodyOptions?) {
    if (!this.CommunicateClass) { throw new Error('TTS client not initialized'); }
    const finalProsodyOptions: any = {};
    if (prosodyOptions && typeof prosodyOptions.rate === 'number') {
      const convertedProsody = createProsodyOptions(prosodyOptions.rate);
      finalProsodyOptions.rate = convertedProsody.rate;
    }
    try {
      const communicateOptions: any = { voice: this.currentVoice };
      if (finalProsodyOptions.rate) { communicateOptions.rate = finalProsodyOptions.rate; }
      if (finalProsodyOptions.pitch) { communicateOptions.pitch = finalProsodyOptions.pitch; }
      if (finalProsodyOptions.volume) { communicateOptions.volume = finalProsodyOptions.volume; }
      let communicate;
      try {
        communicate = new this.CommunicateClass(text, communicateOptions);
      } catch (error) {
        console.warn('Failed to create Communicate with prosody options, trying with voice only:', error);
        const minimalOptions = { voice: this.currentVoice };
        communicate = new this.CommunicateClass(text, minimalOptions);
      }
      ...
    } catch (error) { ... }
  }
  \<close>
  \<open>prosodyRate\<close> is as for the HTTP backend. \<^verbatim>\<open>finalProsodyOptions\<close> never has a
  \<^verbatim>\<open>pitch\<close> or a \<^verbatim>\<open>volume\<close>.
\<close>

definition minimalOptions :: "UniversalTTSClient \<Rightarrow> communicate_options" where
  "minimalOptions client =
     \<lparr>voice = currentVoice client, rate = None, pitch = None, volume = None\<rparr>"

definition communicateOptions ::
  "platform \<Rightarrow> UniversalTTSClient \<Rightarrow> number option \<Rightarrow> communicate_options" where
  "communicateOptions pf client prosodyRate =
     (let finalProsodyOptions_rate =
            (case prosodyRate of
               None \<Rightarrow> None
             | Some r \<Rightarrow> createProsodyOptions pf (Some r))
      in if str_truthy finalProsodyOptions_rate
         then \<lparr>voice = currentVoice client, rate = finalProsodyOptions_rate,
               pitch = None, volume = None\<rparr>
         else \<lparr>voice = currentVoice client, rate = None, pitch = None, volume = None\<rparr>)"

definition UniversalTTSClient_toStream ::
  "platform \<Rightarrow> UniversalTTSClient \<Rightarrow> jsstring \<Rightarrow> number option \<Rightarrow> 'cb toStream_outcome" where
  "UniversalTTSClient_toStream pf client text prosodyRate =
     (case CommunicateClass client of
        None \<Rightarrow>
          \<lparr>result = Inl (JsError (js ''TTS client not initialized'')), constructed = [],
           logged = []\<rparr>
      | Some cls \<Rightarrow>
          (let calls1 = [(text, communicateOptions pf client prosodyRate)]
           in case cls [] text (communicateOptions pf client prosodyRate) of
                Inr communicate \<Rightarrow> stream_of communicate calls1 []
              | Inl error \<Rightarrow>
                  (let msgs =
                         [ConsoleWarn (js ''Failed to create Communicate with prosody options, trying with voice only:'')];
                       calls2 = calls1 @ [(text, minimalOptions client)]
                   in case cls calls1 text (minimalOptions client) of
                        Inr communicate \<Rightarrow> stream_of communicate calls2 msgs
                      | Inl error2 \<Rightarrow>
                          \<lparr>result = Inl (failed_to_create error2), constructed = calls2,
                           logged = msgs @ [ConsoleError (js ''Error creating TTS stream:'')]\<rparr>)))"


section \<open>Vocabulary of the specification\<close>

text \<open>
  The events of a session, as the specification names them: a \<^verbatim>\<open>data\<close> event carries
  one chunk, \<^verbatim>\<open>end\<close> carries nothing, \<^verbatim>\<open>error\<close> carries the error.
\<close>

fun is_data :: "jsstring \<times> arg list \<Rightarrow> bool" where
  "is_data (name, [Chunk b]) = (name = js ''data'')"
| "is_data ev = False"


fun is_end :: "jsstring \<times> arg list \<Rightarrow> bool" where
  "is_end (name, args) = (name = js ''end'' \<and> args = [])"

fun is_error :: "jsstring \<times> arg list \<Rightarrow> bool" where
  "is_error (name, [Thrown e]) = (name = js ''error'')"
| "is_error ev = False"



definition deepgram_event_order :: "(jsstring \<times> arg list) list \<Rightarrow> bool" where
  "deepgram_event_order evs =
     (case dropWhile is_data evs of
        [ev] \<Rightarrow> is_end ev \<or> is_error ev
      | [ev1, ev2] \<Rightarrow> (is_error ev1 \<and> is_end ev2) \<or> (is_end ev1 \<and> is_error ev2)
      | [ev1, ev2, ev3] \<Rightarrow> is_end ev1 \<and> is_error ev2 \<and> is_end ev3
      | _ \<Rightarrow> False)"

text \<open>
  An unrecognized payload shape, in the words of the specification: not a binary array
  (a \<^verbatim>\<open>Uint8Array\<close> or an \<^verbatim>\<open>ArrayBuffer\<close>), not a native buffer, and not an object
  that the compatibility shim converts. The shim converts an \<^verbatim>\<open>ArrayBuffer\<close> and a
  \<^verbatim>\<open>Uint8Array\<close>, which are binary arrays already; to any other object it answers
  with an empty array. This is a property of the payload alone, whatever the runtime
  and whatever the code does with it.
\<close>

fun unrecognized :: "payload \<Rightarrow> bool" where
  "unrecognized (Uint8ArrayP b) = False"
| "unrecognized (ArrayBufferP b) = False"
| "unrecognized (ForeignBufferP b) = False"
| "unrecognized d = True"


section \<open>Invariants and progress\<close>

text \<open>
  The invariant of an HTTP-Streaming session: \<^verbatim>\<open>hasEnded\<close> is set exactly when
  \<^verbatim>\<open>end\<close> has been emitted, and then the asynchronous function is over; until it is
  over only \<^verbatim>\<open>data\<close> events have been emitted, afterwards the events are in the
  adapter's order.
\<close>

definition deepgram_inv :: "'cb deepgram_session \<Rightarrow> bool" where
  "deepgram_inv s \<longleftrightarrow>
     (hasEnded s \<longleftrightarrow> (js ''end'', []) \<in> set (emitted s))
     \<and> (hasEnded s \<longrightarrow> task s = TaskDone)
     \<and> (if task s = TaskDone then deepgram_event_order (emitted s)
         else list_all is_data (emitted s))"


text \<open>The scheduler turns among the actions.\<close>

fun is_resume :: "'cb action \<Rightarrow> bool" where
  "is_resume Resume = True"
| "is_resume (Register event callback) = False"

definition resumptions :: "'cb action list \<Rightarrow> nat" where
  "resumptions acts = length (filter is_resume acts)"

text \<open>The callbacks that a sequence of actions registers for an event, in order.\<close>

fun registered :: "jsstring \<Rightarrow> 'cb action list \<Rightarrow> 'cb list" where
  "registered event [] = []"
| "registered event (Register ev callback # acts) =
     (if ev = event then callback # registered event acts else registered event acts)"
| "registered event (Resume # acts) = registered event acts"

text \<open>
  What a producer has delivered after some of its answers: it has not ended yet, it has
  ended normally, or it has failed with an error.
\<close>

datatype outcome = Pending | Succeeded | Failed thrown



text \<open>
  The error a \<^verbatim>\<open>fetch\<close> outcome fails the session with before any read: a rejected
  request, a status outside 200 to 299, or a response without a body.
\<close>

definition fetch_failure :: "fetch_result \<Rightarrow> thrown option" where
  "fetch_failure net =
     (case net of
        FetchRejected error \<Rightarrow> Some error
      | FetchResolved r \<Rightarrow>
          if \<not> ok r then Some (request_failed r)
          else (case body r of
                  None \<Rightarrow> Some (JsError (js ''Deepgram response stream is not readable.''))
                | Some reader \<Rightarrow> None))"





text \<open>The events of a session whose listeners all return normally.\<close>

definition data_events :: "bytes list \<Rightarrow> (jsstring \<times> arg list) list" where
  "data_events bs = map (\<lambda>b. (js ''data'', [Chunk b])) bs"



text \<open>No listener ever throws.\<close>

definition returns_normally :: "'cb behaviour \<Rightarrow> bool" where
  "returns_normally call \<longleftrightarrow> (\<forall>h callback args. call h callback args = None)"


section \<open>Example values\<close>

text \<open>
  A runtime without a native \<^verbatim>\<open>Buffer\<close> (so the shim is installed), a provider class
  that rejects a \<^verbatim>\<open>rate\<close> option, and its generator: an audio chunk with a string
  payload, an audio chunk with a byte array, then the end.
\<close>

definition example_platform :: platform where
  "example_platform =
     \<lparr>hasNativeBuffer = False, hasWindow = True,
      TextEncoder_encode = (\<lambda>s. []), Number_toString_other = (\<lambda>m e. []),
      fetch_missing = None, URIError_message = js ''URI malformed''\<rparr>"

definition example_generator :: generator where
  "example_generator n =
     (if n = 1 then GenYield (AsyncChunk (js ''audio'') (StringP (js ''x'')))
      else if n = 2 then GenYield (AsyncChunk (js ''audio'') (Uint8ArrayP [1, 2]))
      else GenReturn)"

definition example_class :: CommunicateClass where
  "example_class calls text options =
     (if rate options = None then Inr (Inr example_generator)
      else Inl (JsError (js ''rate is not supported'')))"

definition example_client :: UniversalTTSClient where
  "example_client =
     \<lparr>CommunicateClass = Some example_class, currentVoice = Some (js ''en-US-AvaNeural''),
      currentFormat = None\<rparr>"

definition example_stream :: "string streamAdapter" where
  "example_stream =
     \<lparr>listeners = Map.empty, invoked = [], emitted = [], console = [],
      isConsuming = False, asyncGenerator = example_generator, pulled = 0,
      finished = False, closing = None\<rparr>"


definition example_session :: "string deepgram_session" where
  "example_session =
     \<lparr>listeners = Map.empty, invoked = [], emitted = [], console = [],
      hasEnded = False, task = AwaitFetch\<rparr>"

definition example_request :: request where
  "example_request =
     \<lparr>url_base = js ''https://api.deepgram.com'', url_model = js ''aura-asteria-en'',
      url_encoding = Mp3, authorization_token = js ''key'', body_text = js ''hello'',
      body_speed = None\<rparr>"





text \<open>
  Listeners: the one named \<^verbatim>\<open>throwing\<close> throws whenever it is called, every other one
  returns.
\<close>

definition example_call :: "string behaviour" where
  "example_call h callback args = (if callback = ''throwing'' then Some NonError else None)"

definition quiet :: "string behaviour" where
  "quiet h callback args = None"

text \<open>
  A generator whose first chunk is of type \<^verbatim>\<open>audio\<close> with the number zero as its
  payload and whose second is of type \<^verbatim>\<open>audio\<close> with a plain object.
\<close>

definition odd_generator :: generator where
  "odd_generator n =
     (if n = 1 then GenYield (AsyncChunk (js ''audio'') (NumberP (Finite 0 0)))
      else if n = 2 then GenYield (AsyncChunk (js ''audio'') ObjectP)
      else GenReturn)"

definition odd_stream :: "string streamAdapter" where
  "odd_stream =
     \<lparr>listeners = Map.empty, invoked = [], emitted = [], console = [],
      isConsuming = False, asyncGenerator = odd_generator, pulled = 0,
      finished = False, closing = None\<rparr>"

section \<open>Facts about strings\<close>

lemma trim_eq_Nil_iff: "trim s = [] \<longleftrightarrow> blank s"
proof
  assume "trim s = []"
  then have all: "\<forall>c \<in> set (dropWhile isWhiteSpace s). isWhiteSpace c"
    by (simp add: trim_def)
  have "dropWhile isWhiteSpace s = []"
  proof (rule ccontr)
    assume ne: "dropWhile isWhiteSpace s \<noteq> []"
    then have "\<not> isWhiteSpace (hd (dropWhile isWhiteSpace s))"
      by (rule hd_dropWhile)
    moreover from ne have "hd (dropWhile isWhiteSpace s) \<in> set (dropWhile isWhiteSpace s)"
      by (rule hd_in_set)
    ultimately show False using all by blast
  qed
  then show "blank s"
    by (simp add: blank_def list_all_iff)
next
  assume "blank s"
  then have "dropWhile isWhiteSpace s = []"
    by (simp add: blank_def list_all_iff)
  then show "trim s = []"
    unfolding trim_def by (simp only: rev.simps dropWhile.simps)
qed

lemma trim_default_model: "trim default_model = default_model"
  by (simp add: default_model_def js_def trim_def isWhiteSpace_def)

lemma default_model_not_Nil: "default_model \<noteq> []"
  by (simp add: default_model_def js_def)


section \<open>Facts about listeners and events\<close>

lemma event_names_distinct:
  "js ''data'' \<noteq> js ''end''" "js ''end'' \<noteq> js ''data''"
  "js ''data'' \<noteq> js ''error''" "js ''error'' \<noteq> js ''data''"
  "js ''end'' \<noteq> js ''error''" "js ''error'' \<noteq> js ''end''"
  by (simp_all add: js_def)

lemma forEach_returns:
  "returns_normally call \<Longrightarrow>
     forEach call cbs args h = (None, h @ map (\<lambda>cb. (cb, args)) cbs)"
  by (induction cbs arbitrary: h) (simp_all add: returns_normally_def)

lemma add_listener_same:
  "add_listener event cb m event = Some (callbacks_of event m @ [cb])"
  by (simp add: add_listener_def callbacks_of_def split: option.splits)

lemma add_listener_other:
  "other \<noteq> event \<Longrightarrow> add_listener event cb m other = m other"
  by (simp add: add_listener_def split: option.splits)

lemma dropWhile_all_then:
  "list_all P xs \<Longrightarrow> \<not> P y \<Longrightarrow> dropWhile P (xs @ y # ys) = y # ys"
  by (induction xs) simp_all

lemma is_data_not_end: "is_data ev \<Longrightarrow> ev \<noteq> (js ''end'', [])"
  by (cases ev rule: is_data.cases) auto

lemma all_data_no_end: "list_all is_data evs \<Longrightarrow> (js ''end'', []) \<notin> set evs"
  using is_data_not_end by (auto simp add: list_all_iff)

lemma not_data:
  "\<not> is_data (js ''end'', [])" "\<not> is_data (js ''error'', [Thrown e])"
  by (simp_all add: event_names_distinct)

lemma data_events_all: "list_all is_data (data_events bs)"
  by (simp add: data_events_def list_all_iff)


section \<open>Facts about the HTTP-Streaming Adapter\<close>

lemma SimpleStreamAdapter_on_frame:
  "emitted (snd (SimpleStreamAdapter_on call event cb s)) = emitted s"
  "hasEnded (snd (SimpleStreamAdapter_on call event cb s)) = hasEnded s"
  "console (snd (SimpleStreamAdapter_on call event cb s)) = console s"
  "task (snd (SimpleStreamAdapter_on call event cb (s :: 'cb deepgram_session))) = task s"
  by (simp_all add: SimpleStreamAdapter_on_def Let_def)

lemma SimpleStreamAdapter_emit_effect:
  "emitted (snd (SimpleStreamAdapter_emit call event args s)) = emitted s @ [(event, args)]"
  "hasEnded (snd (SimpleStreamAdapter_emit call event args s)) = (event = js ''end'' \<or> hasEnded s)"
  "listeners (snd (SimpleStreamAdapter_emit call event args s)) = listeners s"
  "console (snd (SimpleStreamAdapter_emit call event args s)) = console s"
  "task (snd (SimpleStreamAdapter_emit call event args (s :: 'cb deepgram_session))) = task s"
  by (simp_all add: SimpleStreamAdapter_emit_def Let_def split: prod.splits)

lemma SimpleStreamAdapter_emit_outcome:
  "fst (SimpleStreamAdapter_emit call event args s)
     = fst (forEach call (callbacks_of event (listeners s)) args (invoked s))"
  by (simp add: SimpleStreamAdapter_emit_def Let_def split: prod.splits)

text \<open>
  The \<^verbatim>\<open>catch\<close> block emits \<^verbatim>\<open>error\<close>, and then \<^verbatim>\<open>end\<close> exactly when the listeners
  for \<^verbatim>\<open>error\<close> have all returned.
\<close>

lemma deepgram_catch_effect:
  "task (deepgram_catch call e s) = TaskDone"
  "emitted (deepgram_catch call e s)
     = emitted s @ (js ''error'', [Thrown e])
         # (if fst (forEach call (callbacks_of (js ''error'') (listeners s)) [Thrown e] (invoked s))
               = None
            then [(js ''end'', [])] else [])"
  "hasEnded (deepgram_catch call e s)
     \<longleftrightarrow> hasEnded s
         \<or> fst (forEach call (callbacks_of (js ''error'') (listeners s)) [Thrown e] (invoked s))
             = None"
proof -
  let ?s1 = "s\<lparr>console := console s @ [ConsoleError (js ''Deepgram TTS streaming error:'')]\<rparr>"
  obtain t s2 where em: "SimpleStreamAdapter_emit call (js ''error'') [Thrown e] ?s1 = (t, s2)"
    by (cases "SimpleStreamAdapter_emit call (js ''error'') [Thrown e] ?s1")
  have t: "t = fst (forEach call (callbacks_of (js ''error'') (listeners s)) [Thrown e] (invoked s))"
    using SimpleStreamAdapter_emit_outcome [of call "js ''error''" "[Thrown e]" ?s1] em by simp
  have s2: "emitted s2 = emitted s @ [(js ''error'', [Thrown e])]" "hasEnded s2 = hasEnded s"
    using SimpleStreamAdapter_emit_effect(1,2) [of call "js ''error''" "[Thrown e]" ?s1] em
    by (simp_all add: event_names_distinct)
  have A: "emitted (deepgram_catch call e s)
     = emitted s @ (js ''error'', [Thrown e]) # (if t = None then [(js ''end'', [])] else [])"
    using s2
    by (cases t) (simp_all add: deepgram_catch_def em Let_def SimpleStreamAdapter_emit_effect)
  have B: "hasEnded (deepgram_catch call e s) \<longleftrightarrow> hasEnded s \<or> t = None"
    using s2
    by (cases t) (simp_all add: deepgram_catch_def em Let_def SimpleStreamAdapter_emit_effect)
  show "task (deepgram_catch call e s) = TaskDone"
    by (simp add: deepgram_catch_def em Let_def split: option.splits)
  from A show "emitted (deepgram_catch call e s)
     = emitted s @ (js ''error'', [Thrown e])
         # (if fst (forEach call (callbacks_of (js ''error'') (listeners s)) [Thrown e] (invoked s))
               = None
            then [(js ''end'', [])] else [])"
    unfolding t .
  from B show "hasEnded (deepgram_catch call e s)
     \<longleftrightarrow> hasEnded s
         \<or> fst (forEach call (callbacks_of (js ''error'') (listeners s)) [Thrown e] (invoked s))
             = None"
    unfolding t .
qed

lemma deepgram_order_tails:
  assumes "list_all is_data ds"
  shows "deepgram_event_order (ds @ [(js ''end'', [])])"
    and "deepgram_event_order (ds @ [(js ''error'', [Thrown e])])"
    and "deepgram_event_order (ds @ [(js ''error'', [Thrown e]), (js ''end'', [])])"
    and "deepgram_event_order (ds @ [(js ''end'', []), (js ''error'', [Thrown e])])"
    and "deepgram_event_order (ds @ [(js ''end'', []), (js ''error'', [Thrown e]), (js ''end'', [])])"
  using dropWhile_all_then [OF assms, of "(js ''end'', [])"]
    dropWhile_all_then [OF assms, of "(js ''error'', [Thrown e])"]
  by (simp_all add: deepgram_event_order_def event_names_distinct)

text \<open>The \<^verbatim>\<open>catch\<close> block keeps the invariant, before \<^verbatim>\<open>end\<close> and after it.\<close>

lemma deepgram_inv_catch:
  assumes "list_all is_data ds"
      and "emitted s = ds \<or> emitted s = ds @ [(js ''end'', [])]"
      and "hasEnded s \<longleftrightarrow> emitted s \<noteq> ds"
  shows "deepgram_inv (deepgram_catch call e s)"
proof -
  let ?t = "fst (forEach call (callbacks_of (js ''error'') (listeners s)) [Thrown e] (invoked s))"
  note tails = deepgram_order_tails [OF assms(1)]
  note no_end = all_data_no_end [OF assms(1)]
  from assms(2) show ?thesis
  proof
    assume "emitted s = ds"
    with assms(3) no_end tails show ?thesis
      by (cases ?t) (auto simp add: deepgram_inv_def deepgram_catch_effect event_names_distinct)
  next
    assume "emitted s = ds @ [(js ''end'', [])]"
    with assms(3) tails show ?thesis
      by (cases ?t) (auto simp add: deepgram_inv_def deepgram_catch_effect)
  qed
qed

lemma deepgram_inv_emit:
  assumes "deepgram_inv s" and "task s \<noteq> TaskDone"
  shows "list_all is_data (emitted s)" and "\<not> hasEnded s"
  using assms by (auto simp add: deepgram_inv_def)

lemma deepgram_inv_resume:
  assumes "deepgram_inv s"
  shows "deepgram_inv (deepgram_resume call net s)"
proof (cases "task s")
  case AwaitFetch
  then have nd: "task s \<noteq> TaskDone" by simp
  note d = deepgram_inv_emit [OF assms nd]
  have c: "deepgram_inv (deepgram_catch call e s)" for e
    using deepgram_inv_catch [OF d(1), of s call e] d(2) by simp
  have wait: "deepgram_inv (s\<lparr>task := AwaitRead reader 1\<rparr>)" for reader
    using assms nd by (auto simp add: deepgram_inv_def)
  show ?thesis
    using AwaitFetch c wait
    by (simp add: deepgram_resume_def split: fetch_result.splits option.splits)
next
  case (AwaitRead reader n)
  then have nd: "task s \<noteq> TaskDone" by simp
  note d = deepgram_inv_emit [OF assms nd]
  have c: "deepgram_inv (deepgram_catch call e s)" for e
    using deepgram_inv_catch [OF d(1), of s call e] d(2) by simp
  show ?thesis
  proof (cases "reader n")
    case ReadDone
    obtain t s1 where em: "SimpleStreamAdapter_emit call (js ''end'') [] s = (t, s1)"
      by (cases "SimpleStreamAdapter_emit call (js ''end'') [] s")
    have s1: "emitted s1 = emitted s @ [(js ''end'', [])]" "hasEnded s1"
      using SimpleStreamAdapter_emit_effect(1,2) [of call "js ''end''" "[]" s] em by simp_all
    show ?thesis
    proof (cases t)
      case None
      have "deepgram_inv (s1\<lparr>task := TaskDone\<rparr>)"
        using s1 deepgram_order_tails(1) [OF d(1)] by (simp add: deepgram_inv_def)
      with AwaitRead ReadDone em None show ?thesis
        by (simp add: deepgram_resume_def)
    next
      case (Some e)
      have "deepgram_inv (deepgram_catch call e s1)"
        using deepgram_inv_catch [OF d(1), of s1 call e] s1 by simp
      with AwaitRead ReadDone em Some show ?thesis
        by (simp add: deepgram_resume_def)
    qed
  next
    case (ReadValue v)
    show ?thesis
    proof (cases v)
      case None
      have "deepgram_inv (s\<lparr>task := AwaitRead reader (Suc n)\<rparr>)"
        using assms nd by (auto simp add: deepgram_inv_def)
      with AwaitRead ReadValue None show ?thesis
        by (simp add: deepgram_resume_def)
    next
      case (Some b)
      obtain t s1 where em: "SimpleStreamAdapter_emit call (js ''data'') [Chunk b] s = (t, s1)"
        by (cases "SimpleStreamAdapter_emit call (js ''data'') [Chunk b] s")
      have s1: "emitted s1 = emitted s @ [(js ''data'', [Chunk b])]" "\<not> hasEnded s1"
        using SimpleStreamAdapter_emit_effect(1,2) [of call "js ''data''" "[Chunk b]" s] em d(2)
        by (simp_all add: event_names_distinct)
      have all: "list_all is_data (emitted s1)"
        using s1(1) d(1) by simp
      show ?thesis
      proof (cases t)
        case None
        have "deepgram_inv (s1\<lparr>task := AwaitRead reader (Suc n)\<rparr>)"
          using s1 all all_data_no_end [OF all] by (simp add: deepgram_inv_def)
        with AwaitRead ReadValue Some em None show ?thesis
          by (simp add: deepgram_resume_def)
      next
        case (Some e)
        have "deepgram_inv (deepgram_catch call e s1)"
          using deepgram_inv_catch [OF all, of s1 call e] s1(2) by simp
        with AwaitRead ReadValue \<open>v = Some b\<close> em Some show ?thesis
          by (simp add: deepgram_resume_def)
      qed
    qed
  next
    case (ReadThrows e)
    with AwaitRead c show ?thesis
      by (simp add: deepgram_resume_def)
  qed
next
  case TaskDone
  with assms show ?thesis by (simp add: deepgram_resume_def)
qed

lemma deepgram_inv_on:
  "deepgram_inv s \<Longrightarrow> deepgram_inv (snd (SimpleStreamAdapter_on call event cb s))"
  by (auto simp add: deepgram_inv_def SimpleStreamAdapter_on_frame)

lemma deepgram_inv_run:
  "deepgram_inv s \<Longrightarrow> deepgram_inv (deepgram_run call net acts s)"
proof (induction acts arbitrary: s)
  case Nil
  then show ?case by simp
next
  case (Cons a as)
  have "deepgram_inv (deepgram_step call net a s)"
    using Cons.prems deepgram_inv_on deepgram_inv_resume by (cases a) simp_all
  then show ?case using Cons.IH by simp
qed

text \<open>
  The session that \<^verbatim>\<open>toStream\<close> returns: it waits for the response, or, where there
  is no \<^verbatim>\<open>fetch\<close>, it has failed already.
\<close>

lemma deepgram_toStream_fresh:
  assumes "DeepgramTTSClient_toStream pf client text r = (Inr s0, reqs)"
      and "fetch_missing pf = None"
  shows "task s0 = AwaitFetch \<and> emitted s0 = [] \<and> \<not> hasEnded s0 \<and> invoked s0 = []
       \<and> listeners s0 = Map.empty \<and> console s0 = []"
  using assms by (auto simp add: DeepgramTTSClient_toStream_def Let_def split: if_splits)

lemma deepgram_inv_fresh:
  assumes "DeepgramTTSClient_toStream pf client text r = (Inr s0, reqs)"
  shows "deepgram_inv s0"
proof (cases "fetch_missing pf")
  case None
  from deepgram_toStream_fresh [OF assms None] show ?thesis
    by (simp add: deepgram_inv_def)
next
  case (Some message)
  let ?s = "\<lparr>listeners = Map.empty, invoked = [], emitted = [], console = [],
             hasEnded = False, task = AwaitFetch\<rparr> :: 'a deepgram_session"
  from assms Some have "s0 = deepgram_catch (\<lambda>h callback args. None) (JsError message) ?s"
    by (auto simp add: DeepgramTTSClient_toStream_def Let_def split: if_splits)
  moreover have "deepgram_inv (deepgram_catch (\<lambda>h callback args. None) (JsError message) ?s)"
    by (rule deepgram_inv_catch [of "[]"]) simp_all
  ultimately show ?thesis by simp
qed

lemma deepgram_done_stays:
  "task s = TaskDone \<Longrightarrow>
     task (deepgram_run call net acts s) = TaskDone
     \<and> emitted (deepgram_run call net acts s) = emitted s"
proof (induction acts arbitrary: s)
  case Nil
  then show ?case by simp
next
  case (Cons a as)
  have "task (deepgram_step call net a s) = TaskDone
      \<and> emitted (deepgram_step call net a s) = emitted s"
    using Cons.prems
    by (cases a) (simp_all add: SimpleStreamAdapter_on_frame deepgram_resume_def)
  then show ?case using Cons.IH [of "deepgram_step call net a s"] by simp
qed


section \<open>Facts about progress of the HTTP-Streaming Adapter\<close>


lemma resumptions_Nil: "resumptions [] = 0"
  by (simp add: resumptions_def)

lemma deepgram_run_append:
  "deepgram_run call net (xs @ ys) s = deepgram_run call net ys (deepgram_run call net xs s)"
  by (induction xs arbitrary: s) simp_all

lemma deepgram_registrations:
  "Resume \<notin> set acts \<Longrightarrow>
     task (deepgram_run call net acts s) = task s
     \<and> emitted (deepgram_run call net acts s) = emitted s
     \<and> hasEnded (deepgram_run call net acts s) = hasEnded s"
proof (induction acts arbitrary: s)
  case Nil
  then show ?case by simp
next
  case (Cons a as)
  then show ?case
    by (cases a) (simp_all add: SimpleStreamAdapter_on_frame)
qed

lemma deepgram_resume_failure:
  "task s = AwaitFetch \<Longrightarrow> fetch_failure net = Some e \<Longrightarrow>
     deepgram_resume call net s = deepgram_catch call e s"
  by (auto simp add: deepgram_resume_def fetch_failure_def
      split: fetch_result.splits option.splits if_splits)


text \<open>
  A session whose request fails emits \<^verbatim>\<open>error\<close> at the first resumption, and
  \<^verbatim>\<open>end\<close> after it exactly when the listeners registered for \<^verbatim>\<open>error\<close> by then all
  return; nothing more is emitted later.
\<close>

lemma deepgram_fails_at_once:
  assumes "task s = AwaitFetch" and "fetch_failure net = Some e" and "Resume \<notin> set pre"
  shows "emitted (deepgram_run call net (pre @ Resume # post) s)
       = emitted s @ (js ''error'', [Thrown e])
           # (if fst (forEach call
                        (callbacks_of (js ''error'') (listeners (deepgram_run call net pre s)))
                        [Thrown e] (invoked (deepgram_run call net pre s))) = None
              then [(js ''end'', [])] else [])"
    and "task (deepgram_run call net (pre @ Resume # post) s) = TaskDone"
proof -
  let ?s1 = "deepgram_run call net pre s"
  from deepgram_registrations [OF assms(3), of call net s] assms(1)
  have s1: "task ?s1 = AwaitFetch" "emitted ?s1 = emitted s" by simp_all
  have r: "deepgram_resume call net ?s1 = deepgram_catch call e ?s1"
    using s1(1) assms(2) by (rule deepgram_resume_failure)
  have d: "task (deepgram_catch call e ?s1) = TaskDone"
    by (simp add: deepgram_catch_effect)
  have run: "deepgram_run call net (pre @ Resume # post) s
      = deepgram_run call net post (deepgram_catch call e ?s1)"
    by (simp add: deepgram_run_append r)
  from deepgram_done_stays [OF d, of call net post] run s1(2)
  show "emitted (deepgram_run call net (pre @ Resume # post) s)
       = emitted s @ (js ''error'', [Thrown e])
           # (if fst (forEach call
                        (callbacks_of (js ''error'') (listeners (deepgram_run call net pre s)))
                        [Thrown e] (invoked (deepgram_run call net pre s))) = None
              then [(js ''end'', [])] else [])"
    by (simp add: deepgram_catch_effect)
  from deepgram_done_stays [OF d, of call net post] run
  show "task (deepgram_run call net (pre @ Resume # post) s) = TaskDone"
    by simp
qed





section \<open>Facts about sessions whose listeners return\<close>






section \<open>Facts about the Generator-Backed Adapter\<close>

lemma streamAdapter_on_other:
  "event \<noteq> js ''data'' \<Longrightarrow>
     isConsuming (streamAdapter_on event cb a) = isConsuming a
     \<and> pulled (streamAdapter_on event cb a) = pulled a
     \<and> finished (streamAdapter_on event cb a) = finished a
     \<and> emitted (streamAdapter_on event cb a) = emitted a
     \<and> invoked (streamAdapter_on event cb a) = invoked a
     \<and> console (streamAdapter_on event cb a) = console a
     \<and> closing (streamAdapter_on event cb a) = closing a
     \<and> asyncGenerator (streamAdapter_on event cb a) = asyncGenerator a"
  by (simp add: streamAdapter_on_def Let_def)

lemma consume_resume_idle:
  "\<not> isConsuming a \<Longrightarrow> consume_resume call pf a = a"
  by (simp add: consume_resume_def)

lemma universal_run_idle:
  "\<not> isConsuming a \<Longrightarrow> \<forall>cb. Register (js ''data'') cb \<notin> set acts \<Longrightarrow>
     \<not> isConsuming (universal_run call pf acts a)
     \<and> pulled (universal_run call pf acts a) = pulled a
     \<and> emitted (universal_run call pf acts a) = emitted a
     \<and> invoked (universal_run call pf acts a) = invoked a
     \<and> finished (universal_run call pf acts a) = finished a
     \<and> closing (universal_run call pf acts a) = closing a
     \<and> asyncGenerator (universal_run call pf acts a) = asyncGenerator a"
proof (induction acts arbitrary: a)
  case Nil
  then show ?case by simp
next
  case (Cons x xs)
  show ?case
  proof (cases x)
    case (Register event cb)
    with Cons.prems have ne: "event \<noteq> js ''data''" by auto
    from Cons.prems have rest: "\<forall>cb. Register (js ''data'') cb \<notin> set xs" by auto
    have idle: "\<not> isConsuming (streamAdapter_on event cb a)"
      using streamAdapter_on_other [OF ne, of cb a] Cons.prems(1) by simp
    show ?thesis
      using Cons.IH [OF idle rest] streamAdapter_on_other [OF ne, of cb a] Register
      by simp
  next
    case Resume
    from Cons.prems have rest: "\<forall>cb. Register (js ''data'') cb \<notin> set xs" by auto
    show ?thesis
      using Cons.IH [OF Cons.prems(1) rest] Resume consume_resume_idle [OF Cons.prems(1)]
      by simp
  qed
qed

lemma toStream_fresh:
  "result (UniversalTTSClient_toStream pf client text r) = Inr a0 \<Longrightarrow>
     \<not> isConsuming a0 \<and> pulled a0 = 0 \<and> emitted a0 = [] \<and> invoked a0 = []
     \<and> \<not> finished a0 \<and> listeners a0 = Map.empty \<and> closing a0 = None \<and> console a0 = []"
  by (auto simp add: UniversalTTSClient_toStream_def stream_of_def Let_def
      split: option.splits sum.splits)



lemma streamAdapter_emit_effect:
  "emitted (snd (streamAdapter_emit call event args a)) = emitted a @ [(event, args)]"
  "finished (snd (streamAdapter_emit call event args a)) = finished a"
  "isConsuming (snd (streamAdapter_emit call event args a)) = isConsuming a"
  "pulled (snd (streamAdapter_emit call event args a)) = pulled a"
  "asyncGenerator (snd (streamAdapter_emit call event args a)) = asyncGenerator a"
  "closing (snd (streamAdapter_emit call event args a)) = closing a"
  "console (snd (streamAdapter_emit call event args a)) = console a"
  "listeners (snd (streamAdapter_emit call event args a)) = listeners a"
  "invoked (snd (streamAdapter_emit call event args a))
     = snd (forEach call (callbacks_of event (listeners a)) args (invoked a))"
  by (simp_all add: streamAdapter_emit_def split: prod.splits)

lemma streamAdapter_emit_outcome:
  "fst (streamAdapter_emit call event args a)
     = fst (forEach call (callbacks_of event (listeners a)) args (invoked a))"
  by (simp add: streamAdapter_emit_def split: prod.splits)






lemma consume_resume_skip:
  assumes "isConsuming a" and "\<not> finished a" and "closing a = None"
      and "asyncGenerator a (pulled a) = GenYield c"
      and "\<not> (chunk_type c = js ''audio'' \<and> truthy (chunk_data c))"
  shows "consume_resume call pf a = a\<lparr>pulled := Suc (pulled a)\<rparr>"
  using assms by (auto simp add: consume_resume_def)

text \<open>
  A chunk of type \<^verbatim>\<open>audio\<close> with a truthy payload: the converted bytes are emitted as
  one \<^verbatim>\<open>data\<close> event, after the warnings of the conversion; when the listeners for
  \<^verbatim>\<open>data\<close> all return, the next chunk is pulled, and otherwise the generator is closed.
\<close>

lemma consume_resume_audio:
  assumes "isConsuming a" and "\<not> finished a" and "closing a = None"
      and "asyncGenerator a (pulled a) = GenYield c"
      and "chunk_type c = js ''audio''" and "truthy (chunk_data c)"
  shows "emitted (consume_resume call pf a)
       = emitted a @ [(js ''data'', [Chunk (fst (audioData_of pf (chunk_data c)))])]"
    and "console (consume_resume call pf a) = console a @ snd (audioData_of pf (chunk_data c))"
    and "invoked (consume_resume call pf a)
       = snd (forEach call (callbacks_of (js ''data'') (listeners a))
                [Chunk (fst (audioData_of pf (chunk_data c)))] (invoked a))"
    and "closing (consume_resume call pf a)
       = fst (forEach call (callbacks_of (js ''data'') (listeners a))
                [Chunk (fst (audioData_of pf (chunk_data c)))] (invoked a))"
    and "pulled (consume_resume call pf a)
       = (if fst (forEach call (callbacks_of (js ''data'') (listeners a))
                [Chunk (fst (audioData_of pf (chunk_data c)))] (invoked a)) = None
          then Suc (pulled a) else pulled a)"
    and "\<not> finished (consume_resume call pf a)"
    and "isConsuming (consume_resume call pf a)"
    and "asyncGenerator (consume_resume call pf a) = asyncGenerator a"
proof -
  obtain b w where ad: "audioData_of pf (chunk_data c) = (b, w)"
    by (cases "audioData_of pf (chunk_data c)")
  let ?a = "a\<lparr>console := console a @ w\<rparr>"
  obtain t a1 where em: "streamAdapter_emit call (js ''data'') [Chunk b] ?a = (t, a1)"
    by (cases "streamAdapter_emit call (js ''data'') [Chunk b] ?a")
  have t: "t = fst (forEach call (callbacks_of (js ''data'') (listeners a)) [Chunk b] (invoked a))"
    using streamAdapter_emit_outcome [of call "js ''data''" "[Chunk b]" ?a] em by simp
  have a1: "emitted a1 = emitted a @ [(js ''data'', [Chunk b])]" "console a1 = console a @ w"
    "invoked a1 = snd (forEach call (callbacks_of (js ''data'') (listeners a)) [Chunk b] (invoked a))"
    "finished a1 = finished a" "isConsuming a1 = isConsuming a" "pulled a1 = pulled a"
    "asyncGenerator a1 = asyncGenerator a" "closing a1 = closing a"
    using streamAdapter_emit_effect [of call "js ''data''" "[Chunk b]" ?a] em by simp_all
  have r: "consume_resume call pf a
      = (case t of None \<Rightarrow> a1\<lparr>pulled := Suc (pulled a1)\<rparr> | Some e \<Rightarrow> a1\<lparr>closing := Some e\<rparr>)"
    using assms ad em by (simp add: consume_resume_def split: option.splits)
  have R: "emitted (consume_resume call pf a) = emitted a @ [(js ''data'', [Chunk b])]"
    "console (consume_resume call pf a) = console a @ w"
    "invoked (consume_resume call pf a)
       = snd (forEach call (callbacks_of (js ''data'') (listeners a)) [Chunk b] (invoked a))"
    "closing (consume_resume call pf a) = t"
    "pulled (consume_resume call pf a) = (if t = None then Suc (pulled a) else pulled a)"
    "\<not> finished (consume_resume call pf a)"
    "isConsuming (consume_resume call pf a)"
    "asyncGenerator (consume_resume call pf a) = asyncGenerator a"
    unfolding r using a1 assms(1-3) by (cases t; simp)+
  from R(1) show "emitted (consume_resume call pf a)
       = emitted a @ [(js ''data'', [Chunk (fst (audioData_of pf (chunk_data c)))])]"
    by (simp add: ad)
  from R(2) show "console (consume_resume call pf a)
       = console a @ snd (audioData_of pf (chunk_data c))"
    by (simp add: ad)
  from R(3) show "invoked (consume_resume call pf a)
       = snd (forEach call (callbacks_of (js ''data'') (listeners a))
                [Chunk (fst (audioData_of pf (chunk_data c)))] (invoked a))"
    by (simp add: ad)
  from R(4) show "closing (consume_resume call pf a)
       = fst (forEach call (callbacks_of (js ''data'') (listeners a))
                [Chunk (fst (audioData_of pf (chunk_data c)))] (invoked a))"
    by (simp add: ad t)
  from R(5) show "pulled (consume_resume call pf a)
       = (if fst (forEach call (callbacks_of (js ''data'') (listeners a))
                [Chunk (fst (audioData_of pf (chunk_data c)))] (invoked a)) = None
          then Suc (pulled a) else pulled a)"
    by (simp add: ad t)
  from R(6-8) show "\<not> finished (consume_resume call pf a)"
    "isConsuming (consume_resume call pf a)"
    "asyncGenerator (consume_resume call pf a) = asyncGenerator a"
    by simp_all
qed


section \<open>Facts about the event order and progress of the Generator-Backed Adapter\<close>











section \<open>Facts about generator sessions whose listeners return\<close>




section \<open>Facts about numbers\<close>

text \<open>
  Rounding picks a nearest neighbour; a value that fits the format is kept as it is; a
  finite result is within half a unit in the last place of the exact value, with a significand
  of at most \<open>2\<^sup>5\<^sup>3\<close> and an exponent of at least \<open>-1074\<close>; and the literals of the
  examples denote the doubles one expects
  (\<open>1.2\<close> is \<^verbatim>\<open>0x3FF3333333333333\<close>).
\<close>

lemma round_even_nearest: "\<bar>2 * (round_even m k * 2 ^ k - m)\<bar> \<le> 2 ^ k"
proof -
  define q where "q = m div 2 ^ k"
  define r where "r = m mod 2 ^ k"
  have m: "m = q * 2 ^ k + r"
    using div_mult_mod_eq [of m "2 ^ k"] by (simp add: q_def r_def)
  have r: "0 \<le> r" "r < 2 ^ k"
    by (simp_all add: r_def)
  consider "2 * r < 2 ^ k" | "2 ^ k < 2 * r" | "2 * r = 2 ^ k" by linarith
  then show ?thesis
  proof cases
    case 1
    then have "round_even m k = q"
      by (simp add: round_even_def q_def r_def)
    with m r 1 show ?thesis by simp
  next
    case 2
    then have "round_even m k = q + 1"
      by (simp add: round_even_def q_def r_def)
    with m r 2 show ?thesis by (simp add: algebra_simps)
  next
    case 3
    then have "round_even m k = q \<or> round_even m k = q + 1"
      by (simp add: round_even_def q_def r_def Let_def)
    with m r 3 show ?thesis by (auto simp add: algebra_simps)
  qed
qed

lemma to_double_exact:
  assumes "bitlen \<bar>m\<bar> \<le> 53" and "- 1074 \<le> e" and "bitlen \<bar>m\<bar> + e \<le> 1024"
  shows "to_double m e = Finite m e"
proof -
  define b where "b = bitlen \<bar>m\<bar>"
  have k: "max (b - 53) (- 1074 - e) \<le> 0"
    using assms(1,2) by (simp add: b_def)
  have "to_double m e =
      (let k = max (b - 53) (- 1074 - e);
           m' = (if k \<le> 0 then m else round_even m (nat k));
           e' = (if k \<le> 0 then e else e + k)
       in if 1024 < bitlen \<bar>m'\<bar> + e' then (if 0 < m' then PosInf else NegInf)
          else Finite m' e')"
    by (simp only: to_double_def b_def)
  also have "\<dots> = (if 1024 < b + e then (if 0 < m then PosInf else NegInf) else Finite m e)"
    using k by (simp only: Let_def if_True b_def)
  also have "\<dots> = Finite m e"
    using assms(3) by (simp add: b_def)
  finally show ?thesis .
qed

lemma to_double_error:
  assumes "to_double m e = Finite m' e'"
  shows "\<bar>real_of_int m' * 2 powi e' - real_of_int m * 2 powi e\<bar> \<le> 2 powi e' / 2
       \<and> - 1074 \<le> e'"
proof -
  define k where "k = max (bitlen \<bar>m\<bar> - 53) (- 1074 - e)"
  show ?thesis
  proof (cases "k \<le> 0")
    case True
    with assms have "m' = m" "e' = e"
      by (simp_all add: to_double_def Let_def k_def split: if_splits)
    moreover from True have "- 1074 \<le> e"
      by (simp add: k_def)
    ultimately show ?thesis by simp
  next
    case False
    define j where "j = nat k"
    from False have kj: "k = int j" by (simp add: j_def)
    from assms False have m': "m' = round_even m j" and e': "e' = e + int j"
      by (simp_all add: to_double_def Let_def k_def [symmetric] j_def split: if_splits)
    have low: "- 1074 \<le> e'"
      using e' kj by (simp add: k_def)
    have "real_of_int m' * 2 powi e' - real_of_int m * 2 powi e
        = 2 powi e * real_of_int (m' * 2 ^ j - m)"
      by (simp add: e' power_int_add algebra_simps)
    then have "\<bar>real_of_int m' * 2 powi e' - real_of_int m * 2 powi e\<bar>
        = 2 powi e * real_of_int \<bar>m' * 2 ^ j - m\<bar>"
      by (simp add: abs_mult)
    also have "\<dots> \<le> 2 powi e * (2 ^ j / 2)"
    proof -
      define d where "d = m' * 2 ^ j - m"
      have "\<bar>2 * d\<bar> \<le> 2 ^ j"
        unfolding d_def m' by (rule round_even_nearest)
      then have "2 * \<bar>d\<bar> \<le> 2 ^ j"
        by (simp only: abs_mult abs_numeral)
      then have "real_of_int (2 * \<bar>d\<bar>) \<le> real_of_int (2 ^ j)"
        by (simp only: of_int_le_iff)
      then have "real_of_int \<bar>d\<bar> \<le> 2 ^ j / 2"
        by simp
      then have "real_of_int \<bar>m' * 2 ^ j - m\<bar> \<le> 2 ^ j / 2"
        by (simp only: d_def)
      then show ?thesis
        by (simp add: mult_left_mono)
    qed
    also have "\<dots> = 2 powi e' / 2"
      by (simp add: e' power_int_add)
    finally show ?thesis using low by simp
  qed
qed

lemma abs_less_bitlen: "\<bar>m\<bar> < 2 ^ nat (bitlen \<bar>m\<bar>)"
proof (cases "m = 0")
  case True
  then show ?thesis by simp
next
  case False
  then have "0 < \<bar>m\<bar>" by simp
  from bitlen_bounds [OF this] show ?thesis by simp
qed

lemma to_double_significand:
  assumes "to_double m e = Finite m' e'"
  shows "\<bar>m'\<bar> \<le> 2 ^ 53"
proof -
  define k where "k = max (bitlen \<bar>m\<bar> - 53) (- 1074 - e)"
  show ?thesis
  proof (cases "k \<le> 0")
    case True
    with assms have eq: "m' = m"
      by (simp add: to_double_def Let_def k_def split: if_splits)
    from True have "bitlen \<bar>m\<bar> \<le> 53"
      by (simp add: k_def)
    then have "nat (bitlen \<bar>m\<bar>) \<le> 53"
      by linarith
    then have "(2::int) ^ nat (bitlen \<bar>m\<bar>) \<le> 2 ^ 53"
      by (rule power_increasing) simp
    with abs_less_bitlen [of m] eq show ?thesis
      by linarith
  next
    case False
    define j where "j = nat k"
    from False have kj: "k = int j" by (simp add: j_def)
    from assms False have m': "m' = round_even m j"
      by (simp add: to_double_def Let_def k_def [symmetric] j_def split: if_splits)
    have "bitlen \<bar>m\<bar> - 53 \<le> int j"
      using kj by (simp add: k_def)
    then have "nat (bitlen \<bar>m\<bar>) \<le> 53 + j"
      by linarith
    then have "(2::int) ^ nat (bitlen \<bar>m\<bar>) \<le> 2 ^ (53 + j)"
      by (rule power_increasing) simp
    with abs_less_bitlen [of m] have small: "\<bar>m\<bar> < 2 ^ 53 * 2 ^ j"
      by (simp add: power_add)
    define d where "d = m' * 2 ^ j - m"
    have "\<bar>2 * d\<bar> \<le> 2 ^ j"
      unfolding d_def m' by (rule round_even_nearest)
    then have near: "2 * \<bar>d\<bar> \<le> 2 ^ j"
      by (simp only: abs_mult abs_numeral)
    have "\<bar>m'\<bar> * 2 ^ j = \<bar>m' * 2 ^ j\<bar>"
      by (simp add: abs_mult)
    also have "\<dots> = \<bar>m + d\<bar>"
      by (simp add: d_def)
    also have "\<dots> \<le> \<bar>m\<bar> + \<bar>d\<bar>"
      by (rule abs_triangle_ineq)
    finally have "2 * (\<bar>m'\<bar> * 2 ^ j) < 2 * (2 ^ 53 * 2 ^ j) + 2 ^ j"
      using small near by linarith
    then have "(2 * \<bar>m'\<bar>) * 2 ^ j < (2 * 2 ^ 53 + 1) * 2 ^ j"
      by (simp add: algebra_simps)
    then have "2 * \<bar>m'\<bar> < 2 * 2 ^ 53 + 1"
      by (simp only: mult_less_cancel_right) simp
    then show ?thesis
      by linarith
  qed
qed

lemma literal_examples:
  "double_of_ratio 12 10 = Finite 5404319552844595 (- 52)"
  "double_of_ratio 8 10 = Finite 7205759403792794 (- 53)"
  "double_of_ratio 1004 1000 = Finite 4521614025879978 (- 52)"
  "double_of_ratio 1 1 = Finite 4503599627370496 (- 52)"
  by code_simp+

lemma percentage_examples:
  "percentage_of (double_of_ratio 12 10) = Finite 20 0"
  "percentage_of (double_of_ratio 8 10) = Finite (- 20) 0"
  "percentage_of (double_of_ratio 1004 1000) = Finite 0 0"
  "percentage_of (double_of_ratio 1005 1000) = Finite 0 0"
  by code_simp+


section \<open>Facts about the Prosody Normalizer\<close>

lemma Math_round_floor:
  "\<exists>m' e'. Math_round (Finite m e) = Finite m' e' \<and> 0 \<le> e'
     \<and> m' * 2 ^ nat e' = \<lfloor>real_of_int m * 2 powi e + 1 / 2\<rfloor>"
proof (cases "0 \<le> e")
  case True
  have "real_of_int m * 2 powi e + 1 / 2 = real_of_int (m * 2 ^ nat e) + 1 / 2"
    using True by (simp add: power_int_def)
  also have "\<lfloor>\<dots>\<rfloor> = m * 2 ^ nat e"
    by linarith
  finally show ?thesis using True by simp
next
  case False
  define k where "k = nat (- e)"
  have e: "e = - int k" using False by (simp add: k_def)
  have "real_of_int m * 2 powi e + 1 / 2
      = real_of_int (2 * m + 2 ^ k) / real_of_int (2 ^ Suc k)"
    by (simp add: e power_int_minus field_simps)
  also have "\<lfloor>\<dots>\<rfloor> = (2 * m + 2 ^ k) div 2 ^ Suc k"
    by (rule floor_divide_of_int_eq)
  finally show ?thesis using False by (simp add: k_def)
qed

lemma render_percentage:
  assumes "0 \<le> e" and "p = m * 2 ^ nat e" and "\<bar>p\<bar> < 2 ^ 53"
  shows "(if \<not> num_eq (Finite m e) (Finite 0 0)
          then Some (if num_gt (Finite m e) (Finite 0 0)
                     then js ''+'' @ Number_toString pf (Finite m e) @ js ''%''
                     else Number_toString pf (Finite m e) @ js ''%'')
          else None)
       = (if p = 0 then None
          else Some ((if 0 < p then js ''+'' else js ''-'') @ decimal (nat \<bar>p\<bar>) @ js ''%''))"
proof -
  have pos: "(0::int) < 2 ^ nat e" by simp
  have z: "p = 0 \<longleftrightarrow> m = 0" using assms(2) by simp
  have g: "0 < p \<longleftrightarrow> 0 < m" using assms(2) pos by (simp add: zero_less_mult_iff)
  have i: "int_of (Finite m e) = Some p" using assms(1,2) by simp
  have s: "Number_toString pf (Finite m e)
      = (if p < 0 then js ''-'' @ decimal (nat (- p)) else decimal (nat p))"
    using i assms(3) by simp
  have eq: "num_eq (Finite m e) (Finite 0 0) \<longleftrightarrow> p = 0"
    using assms(1) z by (simp add: Let_def min_def)
  have gt: "num_gt (Finite m e) (Finite 0 0) \<longleftrightarrow> 0 < p"
    using assms(1,2) by (simp add: Let_def min_def zero_less_mult_iff)
  show ?thesis
    unfolding eq gt s by (cases "p < 0") (auto simp add: abs_if)
qed


section \<open>Further facts about sessions and examples\<close>

lemma deepgram_registered:
  "Resume \<notin> set acts \<Longrightarrow> \<not> hasEnded s \<Longrightarrow>
     callbacks_of event (listeners (deepgram_run call net acts s))
       = callbacks_of event (listeners s) @ registered event acts
     \<and> invoked (deepgram_run call net acts s) = invoked s"
proof (induction acts arbitrary: s)
  case Nil
  then show ?case by simp
next
  case (Cons a as)
  show ?case
  proof (cases a)
    case (Register ev cb)
    let ?s = "snd (SimpleStreamAdapter_on call ev cb s)"
    have s: "\<not> hasEnded ?s" "invoked ?s = invoked s"
      "listeners ?s = add_listener ev cb (listeners s)"
      using Cons.prems(2) by (simp_all add: SimpleStreamAdapter_on_def Let_def)
    have l: "callbacks_of event (listeners ?s)
        = callbacks_of event (listeners s) @ (if ev = event then [cb] else [])"
      using add_listener_same [of ev cb "listeners s"] add_listener_other [of event ev cb "listeners s"]
      by (auto simp add: s(3) callbacks_of_def)
    from Cons.prems(1) Register have "Resume \<notin> set as" by simp
    from Cons.IH [OF this s(1)] s(2) l Register show ?thesis by simp
  next
    case Resume
    with Cons.prems(1) show ?thesis by simp
  qed
qed


lemma example_toStream:
  "DeepgramTTSClient_toStream example_platform
       (new_DeepgramTTSClient (Some (js ''key'')) None None) (js ''hello'') None
     = (Inr example_session, [example_request])"
proof -
  have m: "model (new_DeepgramTTSClient (Some (js ''key'')) None None) = js ''aura-asteria-en''"
    by (simp add: new_DeepgramTTSClient_def str_or_def default_model_def trim_def js_def
        isWhiteSpace_def)
  have w: "well_formed (js ''aura-asteria-en'')"
    by code_simp
  show ?thesis
    using w
    by (simp add: DeepgramTTSClient_toStream_def m example_platform_def)
       (simp add: new_DeepgramTTSClient_def str_or_def
        default_model_def trim_def strip_trailing_slashes_def js_def isWhiteSpace_def
        example_session_def example_request_def)
qed

lemma example_universal_toStream:
  "result (UniversalTTSClient_toStream example_platform example_client (js ''hi'') None)
     = Inr example_stream"
  by (simp add: UniversalTTSClient_toStream_def example_client_def example_class_def
      communicateOptions_def str_truthy_def stream_of_def example_stream_def)

lemma quiet_returns: "returns_normally quiet"
  by (simp add: returns_normally_def quiet_def)

text \<open>
  The conversion of a payload of unrecognized shape gives no bytes; it warns, except
  where the shim is installed and the payload is an object.
\<close>

lemma audioData_of_unrecognized:
  "unrecognized d \<Longrightarrow>
     audioData_of pf d
       = ([], if BufferPolyfill pf \<and> (d = ObjectP \<or> d = NullP) then []
              else [ConsoleWarn (js ''Unexpected audio data type:'')])"
  by (cases d) (simp_all add: audioData_of_def BufferPolyfill_from_def)

text \<open>
  The stream handle of the Generator-Backed Adapter stores a listener for \<^verbatim>\<open>end\<close> and
  invokes nothing, in every state.
\<close>

lemma streamAdapter_on_end_stores:
  "invoked (streamAdapter_on (js ''end'') cb a) = invoked a
   \<and> listeners (streamAdapter_on (js ''end'') cb a) (js ''end'')
       = Some (callbacks_of (js ''end'') (listeners a) @ [cb])"
  by (simp add: streamAdapter_on_def add_listener_same event_names_distinct Let_def)

text \<open>
  \<^verbatim>\<open>toStream\<close> of the HTTP-Streaming Adapter throws for a model name with an unpaired
  surrogate, and where there is no \<^verbatim>\<open>fetch\<close> it returns a session that has failed
  already, with no request made.
\<close>

lemma deepgram_toStream_malformed:
  "apiKey client \<noteq> [] \<Longrightarrow> \<not> well_formed (model client) \<Longrightarrow>
     (DeepgramTTSClient_toStream pf client text r
        :: (thrown + 'cb deepgram_session) \<times> request list)
     = (Inl (JsError (URIError_message pf)), [])"
  by (simp add: DeepgramTTSClient_toStream_def)

lemma deepgram_toStream_no_fetch:
  assumes "DeepgramTTSClient_toStream pf client text r = (Inr s0, reqs)"
      and "fetch_missing pf = Some message"
  shows "reqs = [] \<and> task s0 = TaskDone
       \<and> emitted s0 = [(js ''error'', [Thrown (JsError message)]), (js ''end'', [])]"
  using assms
  by (auto simp add: DeepgramTTSClient_toStream_def Let_def deepgram_catch_effect
      callbacks_of_def split: if_splits)


section \<open>Claims\<close>

text \<open>
  The claims are stated for sessions as \<^verbatim>\<open>toStream\<close> returns them and as any
  interleaving of listener registrations and scheduler turns drives them, for every
  behaviour \<open>call\<close> of the listeners: a listener may throw whenever it is called. The
  events of a session are those its adapter emits; a listener that calls \<^verbatim>\<open>emit\<close> or
  \<^verbatim>\<open>on\<close> of the handle while it runs is not modelled.
\<close>

text \<open>
  Claim C1, as amended. For every Stream Session of the HTTP-Streaming Adapter,
  registering an \<^verbatim>\<open>end\<close> listener after the session has emitted \<^verbatim>\<open>end\<close> invokes
  that listener at once and exactly once, with no arguments, in addition to storing it
  after the listeners already registered for \<^verbatim>\<open>end\<close>.
\<close>

theorem late_end_listener:
  assumes "DeepgramTTSClient_toStream pf client text r = (Inr s0, reqs)"
      and "(js ''end'', []) \<in> set (emitted (deepgram_run call net acts s0))"
  shows "invoked (snd (SimpleStreamAdapter_on call (js ''end'') cb (deepgram_run call net acts s0)))
           = invoked (deepgram_run call net acts s0) @ [(cb, [])]
       \<and> listeners (snd (SimpleStreamAdapter_on call (js ''end'') cb
             (deepgram_run call net acts s0))) (js ''end'')
           = Some (callbacks_of (js ''end'') (listeners (deepgram_run call net acts s0)) @ [cb])"
proof -
  let ?s = "deepgram_run call net acts s0"
  have "deepgram_inv ?s"
    using deepgram_inv_fresh [OF assms(1)] by (rule deepgram_inv_run)
  with assms(2) have "hasEnded ?s"
    by (auto simp add: deepgram_inv_def)
  then show ?thesis
    by (simp add: SimpleStreamAdapter_on_def add_listener_same Let_def)
qed

theorem late_end_listener_witness:
  "DeepgramTTSClient_toStream example_platform
       (new_DeepgramTTSClient (Some (js ''key'')) None None) (js ''hello'') None
     = (Inr example_session, [example_request])
   \<and> (js ''end'', []) \<in> set (emitted (deepgram_run example_call (FetchRejected NonError)
         [Register (js ''end'') ''early'', Resume] example_session))
   \<and> invoked (deepgram_run example_call (FetchRejected NonError)
         [Register (js ''end'') ''early'', Resume] example_session) = [(''early'', [])]
   \<and> invoked (snd (SimpleStreamAdapter_on example_call (js ''end'') ''late''
         (deepgram_run example_call (FetchRejected NonError)
            [Register (js ''end'') ''early'', Resume] example_session)))
       = [(''early'', []), (''late'', [])]"
proof -
  let ?s = "deepgram_run example_call (FetchRejected NonError)
         [Register (js ''end'') ''early'', Resume] example_session"
  have em: "emitted ?s = [(js ''error'', [Thrown NonError]), (js ''end'', [])]"
    by code_simp
  have inv: "invoked ?s = [(''early'', [])]"
    by code_simp
  from em have h2: "(js ''end'', []) \<in> set (emitted ?s)"
    by simp
  from late_end_listener [OF example_toStream h2, of "''late''"] example_toStream h2 inv
  show ?thesis by simp
qed

text \<open>
  The claim as stated, for every Stream Session, fails for the Generator-Backed Adapter,
  whose stream handle has no \<^verbatim>\<open>hasEnded\<close> flag: the session below has emitted two
  \<^verbatim>\<open>data\<close> events and \<^verbatim>\<open>end\<close>; the listener registered for \<^verbatim>\<open>end\<close> afterwards is
  stored and not invoked.
\<close>

theorem late_end_listener_counterexample:
  "result (UniversalTTSClient_toStream example_platform example_client (js ''hi'') None)
     = Inr example_stream
   \<and> emitted (universal_run quiet example_platform
        [Register (js ''data'') ''onData'', Resume, Resume, Resume] example_stream)
      = [(js ''data'', [Chunk []]), (js ''data'', [Chunk [1, 2]]), (js ''end'', [])]
   \<and> (''late'', []) \<notin> set (invoked (streamAdapter_on (js ''end'') ''late''
        (universal_run quiet example_platform
           [Register (js ''data'') ''onData'', Resume, Resume, Resume] example_stream)))"
proof -
  have h2: "emitted (universal_run quiet example_platform
        [Register (js ''data'') ''onData'', Resume, Resume, Resume] example_stream)
      = [(js ''data'', [Chunk []]), (js ''data'', [Chunk [1, 2]]), (js ''end'', [])]"
    by code_simp
  have h3: "(''late'', []) \<notin> set (invoked (streamAdapter_on (js ''end'') ''late''
        (universal_run quiet example_platform
           [Register (js ''data'') ''onData'', Resume, Resume, Resume] example_stream)))"
    by code_simp
  from example_universal_toStream h2 h3 show ?thesis by simp
qed




text \<open>
  Claim C3. The Prosody Normalizer, given a rate multiplier \<open>r\<close>, computes
  \<^verbatim>\<open>round((r - 1) * 100)\<close> as an integer percentage: with \<open>(r - 1) * 100\<close> computed in
  double arithmetic to the finite value \<open>m * 2 ^ e\<close>, the percentage is
  \<open>p = \<lfloor>m * 2 ^ e + 1/2\<rfloor>\<close>. If \<open>p\<close> is zero the result has no rate; otherwise the rate is
  the signed percentage string, \<^verbatim>\<open>+\<close> or \<^verbatim>\<open>-\<close>, the decimal digits of \<open>\<bar>p\<bar>\<close>, and
  \<^verbatim>\<open>%\<close> (for \<open>\<bar>p\<bar> < 2 ^ 53\<close>, where JavaScript prints the digits of the integer
  itself). Without a rate the result has none. The rate 1.2 yields \<^verbatim>\<open>+20%\<close>, 0.8
  yields \<^verbatim>\<open>-20%\<close>, and 1.0 and 1.004 yield no rate.
\<close>

theorem createProsodyOptions_rate:
  "createProsodyOptions pf None = None
   \<and> (num_mul (num_sub r (Finite 1 0)) (Finite 100 0) = Finite m e
        \<and> p = \<lfloor>real_of_int m * 2 powi e + 1 / 2\<rfloor> \<and> \<bar>p\<bar> < 2 ^ 53 \<longrightarrow>
      createProsodyOptions pf (Some r)
        = (if p = 0 then None
           else Some ((if 0 < p then js ''+'' else js ''-'') @ decimal (nat \<bar>p\<bar>) @ js ''%'')))
   \<and> createProsodyOptions pf (Some (double_of_ratio 12 10)) = Some (js ''+20%'')
   \<and> createProsodyOptions pf (Some (double_of_ratio 8 10)) = Some (js ''-20%'')
   \<and> createProsodyOptions pf (Some (double_of_ratio 1 1)) = None
   \<and> createProsodyOptions pf (Some (double_of_ratio 1004 1000)) = None"
proof (intro conjI impI)
  show "createProsodyOptions pf None = None"
    by (simp add: createProsodyOptions_def)
next
  assume h: "num_mul (num_sub r (Finite 1 0)) (Finite 100 0) = Finite m e
        \<and> p = \<lfloor>real_of_int m * 2 powi e + 1 / 2\<rfloor> \<and> \<bar>p\<bar> < 2 ^ 53"
  from Math_round_floor [of m e] obtain m' e'
    where r: "Math_round (Finite m e) = Finite m' e'" "0 \<le> e'"
      "m' * 2 ^ nat e' = \<lfloor>real_of_int m * 2 powi e + 1 / 2\<rfloor>"
    by blast
  from h r(3) have p: "p = m' * 2 ^ nat e'" by simp
  from h have b: "\<bar>p\<bar> < 2 ^ 53" by blast
  from h r(1) have "percentage_of r = Finite m' e'"
    by (simp add: percentage_of_def)
  then show "createProsodyOptions pf (Some r)
        = (if p = 0 then None
           else Some ((if 0 < p then js ''+'' else js ''-'') @ decimal (nat \<bar>p\<bar>) @ js ''%''))"
    using render_percentage [OF r(2) p b, of pf]
    by (simp add: createProsodyOptions_def)
next
  show "createProsodyOptions pf (Some (double_of_ratio 12 10)) = Some (js ''+20%'')"
    by code_simp
next
  show "createProsodyOptions pf (Some (double_of_ratio 8 10)) = Some (js ''-20%'')"
    by code_simp
next
  show "createProsodyOptions pf (Some (double_of_ratio 1 1)) = None"
    by code_simp
next
  show "createProsodyOptions pf (Some (double_of_ratio 1004 1000)) = None"
    by code_simp
qed

theorem createProsodyOptions_rate_witness:
  "num_mul (num_sub (double_of_ratio 1 10) (Finite 1 0)) (Finite 100 0)
     = Finite (- 6333186975989760) (- 46)
   \<and> (- 90 :: int) = \<lfloor>real_of_int (- 6333186975989760) * 2 powi (- 46) + 1 / 2\<rfloor>
   \<and> \<bar>- 90 :: int\<bar> < 2 ^ 53
   \<and> createProsodyOptions example_platform (Some (double_of_ratio 1 10)) = Some (js ''-90%'')"
proof -
  define F where "F = \<lfloor>real_of_int (- 6333186975989760) * 2 powi (- 46) + 1 / 2\<rfloor>"
  have h1: "num_mul (num_sub (double_of_ratio 1 10) (Finite 1 0)) (Finite 100 0)
     = Finite (- 6333186975989760) (- 46)"
    by code_simp
  obtain m' e' where a: "Math_round (Finite (- 6333186975989760) (- 46)) = Finite m' e'"
    and b: "m' * 2 ^ nat e' = F"
    unfolding F_def using Math_round_floor [of "- 6333186975989760" "- 46"] by blast
  have "Math_round (Finite (- 6333186975989760) (- 46)) = Finite (- 90) 0"
    by code_simp
  with a have "m' = - 90" and "e' = 0"
    by simp_all
  with b have "- 90 = F"
    by simp
  then have h2: "(- 90 :: int) = \<lfloor>real_of_int (- 6333186975989760) * 2 powi (- 46) + 1 / 2\<rfloor>"
    unfolding F_def .
  have h3: "\<bar>- 90 :: int\<bar> < 2 ^ 53"
    by simp
  from createProsodyOptions_rate
    [of example_platform "double_of_ratio 1 10" "- 6333186975989760" "- 46" "- 90"]
    h1 h2 h3
  have "createProsodyOptions example_platform (Some (double_of_ratio 1 10))
      = (if (- 90 :: int) = 0 then None
         else Some ((if (0::int) < - 90 then js ''+'' else js ''-'')
                      @ decimal (nat \<bar>- 90 :: int\<bar>) @ js ''%''))"
    by blast
  also have "\<dots> = Some (js ''-90%'')"
    by (simp add: decimal.simps js_def)
  finally have c: "createProsodyOptions example_platform (Some (double_of_ratio 1 10))
      = Some (js ''-90%'')" .
  from h1 h2 h3 c show ?thesis
    by (intro conjI)
qed

text \<open>
  Claim C4. For every call of the HTTP-Streaming Adapter's \<^verbatim>\<open>toStream\<close> with no
  credential configured (an empty API key), \<^verbatim>\<open>toStream\<close> raises at once: the result is
  the error, no stream handle is returned, and no request has been handed to \<^verbatim>\<open>fetch\<close>.
\<close>

theorem deepgram_toStream_without_credential:
  "apiKey client = [] \<Longrightarrow>
     (DeepgramTTSClient_toStream pf client text prosodyRate
        :: (thrown + 'cb deepgram_session) \<times> request list)
     = (Inl (JsError (js ''Deepgram API key is not set. Add it in the plugin settings.'')), [])"
  by (simp add: DeepgramTTSClient_toStream_def)

theorem deepgram_toStream_without_credential_witness:
  "apiKey (new_DeepgramTTSClient None None None) = []
   \<and> (DeepgramTTSClient_toStream example_platform (new_DeepgramTTSClient None None None)
         (js ''hello'') None :: (thrown + string deepgram_session) \<times> request list)
     = (Inl (JsError (js ''Deepgram API key is not set. Add it in the plugin settings.'')), [])"
proof -
  have h: "apiKey (new_DeepgramTTSClient None None None) = []"
    by (simp add: new_DeepgramTTSClient_def str_or_def trim_def)
  from deepgram_toStream_without_credential [OF h] h show ?thesis by simp
qed

text \<open>
  Claim C5, as amended. For every HTTP-Streaming Adapter session whose response has a
  status outside 200 to 299, once the response has arrived the session has emitted no
  \<^verbatim>\<open>data\<close> event and exactly one \<^verbatim>\<open>error\<close> event (carrying the request-failed
  error), first; exactly one \<^verbatim>\<open>end\<close> event follows it if the listeners registered
  for \<^verbatim>\<open>error\<close> until then, called in the order of their registration, all return, and
  no \<^verbatim>\<open>end\<close> event follows if one of them throws. Nothing more is emitted afterwards,
  whatever listeners are registered and however often the scheduler runs.
\<close>

theorem deepgram_non_success_status:
  assumes "DeepgramTTSClient_toStream pf client text r = (Inr s0, reqs)"
      and "fetch_missing pf = None"
      and "\<not> ok resp" and "Resume \<notin> set pre"
  shows "emitted (deepgram_run call (FetchResolved resp) (pre @ Resume # post) s0)
           = (js ''error'', [Thrown (request_failed resp)])
               # (if fst (forEach call (registered (js ''error'') pre)
                            [Thrown (request_failed resp)] []) = None
                  then [(js ''end'', [])] else [])
       \<and> filter is_data (emitted (deepgram_run call (FetchResolved resp) (pre @ Resume # post) s0))
           = []
       \<and> (returns_normally call \<longrightarrow>
            emitted (deepgram_run call (FetchResolved resp) (pre @ Resume # post) s0)
              = [(js ''error'', [Thrown (request_failed resp)]), (js ''end'', [])])"
proof -
  let ?net = "FetchResolved resp"
  let ?e = "request_failed resp"
  let ?s = "deepgram_run call ?net (pre @ Resume # post) s0"
  from deepgram_toStream_fresh [OF assms(1,2)]
  have t: "task s0 = AwaitFetch" and e: "emitted s0 = []" and h: "\<not> hasEnded s0"
    and i: "invoked s0 = []" and l: "listeners s0 = Map.empty"
    by simp_all
  have f: "fetch_failure ?net = Some ?e"
    using assms(3) by (simp add: fetch_failure_def)
  from deepgram_registered [OF assms(4) h, of "js ''error''" call ?net] i l
  have reg: "callbacks_of (js ''error'') (listeners (deepgram_run call ?net pre s0))
      = registered (js ''error'') pre"
    "invoked (deepgram_run call ?net pre s0) = []"
    by (simp_all add: callbacks_of_def)
  from deepgram_fails_at_once(1) [OF t f assms(4), of call post] e reg
  have A: "emitted ?s
           = (js ''error'', [Thrown ?e])
               # (if fst (forEach call (registered (js ''error'') pre) [Thrown ?e] []) = None
                  then [(js ''end'', [])] else [])"
    by simp
  from A have B: "filter is_data (emitted ?s) = []"
    by (simp add: event_names_distinct)
  from A have C: "returns_normally call \<longrightarrow>
      emitted ?s = [(js ''error'', [Thrown ?e]), (js ''end'', [])]"
    by (simp add: forEach_returns)
  from A B C show ?thesis by (intro conjI)
qed

theorem deepgram_non_success_status_witness:
  "DeepgramTTSClient_toStream example_platform
       (new_DeepgramTTSClient (Some (js ''key'')) None None) (js ''hello'') None
     = (Inr example_session, [example_request])
   \<and> fetch_missing example_platform = None
   \<and> \<not> ok \<lparr>status = 401, statusText = js ''Unauthorized'', body = None\<rparr>
   \<and> Resume \<notin> set [Register (js ''data'') ''onData'', Register (js ''error'') ''onError'']
   \<and> returns_normally quiet
   \<and> emitted (deepgram_run quiet
         (FetchResolved \<lparr>status = 401, statusText = js ''Unauthorized'', body = None\<rparr>)
         ([Register (js ''data'') ''onData'', Register (js ''error'') ''onError'']
            @ Resume # [Register (js ''end'') ''onEnd'', Resume])
         example_session)
       = [(js ''error'',
            [Thrown (JsError (js ''Deepgram TTS request failed (401: Unauthorized)''))]),
          (js ''end'', [])]
   \<and> Resume \<notin> set [Register (js ''error'') ''throwing'']
   \<and> emitted (deepgram_run example_call
         (FetchResolved \<lparr>status = 401, statusText = js ''Unauthorized'', body = None\<rparr>)
         ([Register (js ''error'') ''throwing''] @ Resume # [Resume])
         example_session)
       = [(js ''error'',
            [Thrown (JsError (js ''Deepgram TTS request failed (401: Unauthorized)''))])]"
proof -
  let ?resp = "\<lparr>status = 401, statusText = js ''Unauthorized'', body = None\<rparr>"
  let ?pre = "[Register (js ''data'') ''onData'', Register (js ''error'') ''onError'']"
  let ?post = "[Register (js ''end'') ''onEnd'', Resume]"
  have h1: "fetch_missing example_platform = None"
    by (simp add: example_platform_def)
  have h2: "\<not> ok ?resp"
    by (simp add: ok_def)
  have h3: "Resume \<notin> set ?pre"
    by simp
  have msg: "request_failed ?resp
      = JsError (js ''Deepgram TTS request failed (401: Unauthorized)'')"
    by (simp add: request_failed_def decimal.simps js_def)
  from deepgram_non_success_status [OF example_toStream h1 h2 h3, of quiet ?post] quiet_returns
  have a: "emitted (deepgram_run quiet (FetchResolved ?resp) (?pre @ Resume # ?post) example_session)
      = [(js ''error'', [Thrown (request_failed ?resp)]), (js ''end'', [])]"
    by blast
  let ?tpre = "[Register (js ''error'') ''throwing'']"
  have h4: "Resume \<notin> set ?tpre"
    by simp
  have th: "fst (forEach example_call (registered (js ''error'') ?tpre)
      [Thrown (request_failed ?resp)] []) = Some NonError"
    by (simp add: example_call_def)
  from deepgram_non_success_status [OF example_toStream h1 h2 h4, of example_call "[Resume]"]
  have "emitted (deepgram_run example_call (FetchResolved ?resp) (?tpre @ Resume # [Resume])
        example_session)
      = (js ''error'', [Thrown (request_failed ?resp)])
          # (if fst (forEach example_call (registered (js ''error'') ?tpre)
                       [Thrown (request_failed ?resp)] []) = None
             then [(js ''end'', [])] else [])"
    by blast
  then have b: "emitted (deepgram_run example_call (FetchResolved ?resp)
        (?tpre @ Resume # [Resume]) example_session)
      = [(js ''error'', [Thrown (request_failed ?resp)])]"
    by (simp only: th option.distinct if_False)
  from example_toStream h1 h2 h3 quiet_returns a h4 b show ?thesis
    by (simp only: msg simp_thms)
qed

text \<open>
  The claim as stated fails: the session below has a listener for \<^verbatim>\<open>error\<close> that
  throws; the response has the status 401, and the session emits \<^verbatim>\<open>error\<close> and never
  \<^verbatim>\<open>end\<close>, although its asynchronous function is over.
\<close>

theorem deepgram_non_success_status_counterexample:
  "DeepgramTTSClient_toStream example_platform
       (new_DeepgramTTSClient (Some (js ''key'')) None None) (js ''hello'') None
     = (Inr example_session, [example_request])
   \<and> \<not> ok \<lparr>status = 401, statusText = js ''Unauthorized'', body = None\<rparr>
   \<and> example_call [] ''throwing''
        [Thrown (JsError (js ''Deepgram TTS request failed (401: Unauthorized)''))]
       = Some NonError
   \<and> emitted (deepgram_run example_call
         (FetchResolved \<lparr>status = 401, statusText = js ''Unauthorized'', body = None\<rparr>)
         [Register (js ''error'') ''throwing'', Resume, Resume] example_session)
       = [(js ''error'',
            [Thrown (JsError (js ''Deepgram TTS request failed (401: Unauthorized)''))])]
   \<and> task (deepgram_run example_call
         (FetchResolved \<lparr>status = 401, statusText = js ''Unauthorized'', body = None\<rparr>)
         [Register (js ''error'') ''throwing'', Resume, Resume] example_session)
       = TaskDone"
proof -
  let ?resp = "\<lparr>status = 401, statusText = js ''Unauthorized'', body = None\<rparr>"
  have h2: "\<not> ok ?resp"
    by (simp add: ok_def)
  have c: "example_call [] ''throwing''
        [Thrown (JsError (js ''Deepgram TTS request failed (401: Unauthorized)''))]
       = Some NonError"
    by (simp add: example_call_def)
  have e: "emitted (deepgram_run example_call (FetchResolved ?resp)
         [Register (js ''error'') ''throwing'', Resume, Resume] example_session)
       = [(js ''error'',
            [Thrown (JsError (js ''Deepgram TTS request failed (401: Unauthorized)''))])]"
    by code_simp
  have "task example_session = AwaitFetch"
    and "fetch_failure (FetchResolved ?resp) = Some (request_failed ?resp)"
    and "Resume \<notin> set [Register (js ''error'') ''throwing'']"
    using h2 by (simp_all add: example_session_def fetch_failure_def)
  from deepgram_fails_at_once(2) [OF this, of example_call "[Resume]"]
  have t: "task (deepgram_run example_call (FetchResolved ?resp)
         [Register (js ''error'') ''throwing'', Resume, Resume] example_session)
       = TaskDone"
    by simp
  from example_toStream h2 c e t show ?thesis
    by (intro conjI)
qed

text \<open>
  Claim C6. For every Generator-Backed Adapter session, no chunk is pulled from the
  provider's asynchronous chunk sequence until the first \<^verbatim>\<open>data\<close> listener is
  registered: after any sequence of registrations for other events and of scheduler
  turns, \<^verbatim>\<open>next()\<close> has not been called, the handle is not consuming and nothing has
  been emitted; registering a \<^verbatim>\<open>data\<close> listener then starts consumption with the first
  pull.
\<close>

theorem universal_lazy_start:
  assumes "result (UniversalTTSClient_toStream pf client text r) = Inr a0"
      and "\<forall>cb. Register (js ''data'') cb \<notin> set acts"
  shows "pulled (universal_run call pf acts a0) = 0
       \<and> \<not> isConsuming (universal_run call pf acts a0)
       \<and> emitted (universal_run call pf acts a0) = []
       \<and> pulled (streamAdapter_on (js ''data'') cb (universal_run call pf acts a0)) = 1
       \<and> isConsuming (streamAdapter_on (js ''data'') cb (universal_run call pf acts a0))"
proof -
  from toStream_fresh [OF assms(1)]
  have fresh: "\<not> isConsuming a0" "pulled a0 = 0" "emitted a0 = []" by simp_all
  from universal_run_idle [OF fresh(1) assms(2), of call pf] fresh
  have idle: "\<not> isConsuming (universal_run call pf acts a0)"
    "pulled (universal_run call pf acts a0) = 0" "emitted (universal_run call pf acts a0) = []"
    by simp_all
  then show ?thesis
    by (simp add: streamAdapter_on_def consumeAsyncGenerator_def Let_def)
qed

theorem universal_lazy_start_witness:
  "result (UniversalTTSClient_toStream example_platform example_client (js ''hi'') None)
     = Inr example_stream
   \<and> (\<forall>cb. Register (js ''data'') cb \<notin> set [Register (js ''end'') ''onEnd'', Resume, Register (js ''error'') ''onError''])
   \<and> pulled (universal_run example_call example_platform
        [Register (js ''end'') ''onEnd'', Resume, Register (js ''error'') ''onError''] example_stream) = 0
   \<and> pulled (streamAdapter_on (js ''data'') ''onData'' (universal_run example_call example_platform
        [Register (js ''end'') ''onEnd'', Resume, Register (js ''error'') ''onError''] example_stream)) = 1"
proof -
  have h2: "\<forall>cb. Register (js ''data'') cb \<notin> set [Register (js ''end'') ''onEnd'', Resume, Register (js ''error'') ''onError'']"
    by (simp add: js_def)
  from universal_lazy_start [OF example_universal_toStream h2, of example_call "''onData''"]
    example_universal_toStream h2
  show ?thesis by simp
qed

text \<open>
  Claim C7. For every Generator-Backed Adapter \<^verbatim>\<open>toStream\<close> call where the provider's
  constructor rejects the full options, exactly one more constructor call is made, with
  the voice-only options; if that second construction fails as well, \<^verbatim>\<open>toStream\<close>
  raises (the error wrapped as \<^verbatim>\<open>Failed to create TTS stream: ...\<close>): no stream handle
  is returned and no further constructor call is made.
\<close>

theorem universal_toStream_fallback:
  assumes "CommunicateClass client = Some cls"
      and "cls [] text (communicateOptions pf client r) = Inl e1"
  shows "constructed (UniversalTTSClient_toStream pf client text r :: 'cb toStream_outcome)
           = [(text, communicateOptions pf client r), (text, minimalOptions client)]
       \<and> rate (minimalOptions client) = None
       \<and> pitch (minimalOptions client) = None
       \<and> volume (minimalOptions client) = None
       \<and> voice (minimalOptions client) = currentVoice client
       \<and> (\<forall>e2. cls [(text, communicateOptions pf client r)] text (minimalOptions client) = Inl e2
             \<longrightarrow> result (UniversalTTSClient_toStream pf client text r :: 'cb toStream_outcome)
                   = Inl (failed_to_create e2))"
  using assms
  by (auto simp add: UniversalTTSClient_toStream_def stream_of_def minimalOptions_def Let_def
      split: sum.splits)

theorem universal_toStream_fallback_witness:
  "CommunicateClass example_client = Some example_class
   \<and> example_class [] (js ''hi'')
        (communicateOptions example_platform example_client (Some (double_of_ratio 12 10)))
       = Inl (JsError (js ''rate is not supported''))
   \<and> constructed (UniversalTTSClient_toStream example_platform example_client (js ''hi'')
         (Some (double_of_ratio 12 10)) :: string toStream_outcome)
       = [(js ''hi'', \<lparr>voice = Some (js ''en-US-AvaNeural''), rate = Some (js ''+20%''),
                       pitch = None, volume = None\<rparr>),
          (js ''hi'', \<lparr>voice = Some (js ''en-US-AvaNeural''), rate = None,
                       pitch = None, volume = None\<rparr>)]"
proof -
  have h1: "CommunicateClass example_client = Some example_class"
    by (simp add: example_client_def)
  have opts: "communicateOptions example_platform example_client (Some (double_of_ratio 12 10))
      = \<lparr>voice = Some (js ''en-US-AvaNeural''), rate = Some (js ''+20%''),
         pitch = None, volume = None\<rparr>"
    by code_simp
  have h2: "example_class [] (js ''hi'')
        (communicateOptions example_platform example_client (Some (double_of_ratio 12 10)))
       = Inl (JsError (js ''rate is not supported''))"
    by (simp add: opts example_class_def)
  have m: "minimalOptions example_client
      = \<lparr>voice = Some (js ''en-US-AvaNeural''), rate = None, pitch = None, volume = None\<rparr>"
    by (simp add: minimalOptions_def example_client_def)
  have v: "currentVoice example_client = Some (js ''en-US-AvaNeural'')"
    by (simp add: example_client_def)
  from universal_toStream_fallback [OF h1 h2, where 'cb = string] h1 h2 show ?thesis
    by (simp add: opts m v)
qed

text \<open>
  Claim C8. For every configuration record, the effective voice is: when the HTTP
  backend is selected, the trimmed model name, or the fixed default voice string if the
  model is absent, blank or whitespace-only; otherwise the trimmed \<^verbatim>\<open>customVoice\<close>
  when it is non-blank, else \<^verbatim>\<open>selectedVoice\<close>.
\<close>

theorem getVoiceForSettings_effective_voice:
  "getVoiceForSettings settings =
     (if ttsEngine settings = js ''deepgram''
      then (case deepgramModel settings of
              None \<Rightarrow> js ''aura-asteria-en''
            | Some m \<Rightarrow> if blank m then js ''aura-asteria-en'' else trim m)
      else (if blank (customVoice settings) then selectedVoice settings
            else trim (customVoice settings)))"
proof (cases "ttsEngine settings = js ''deepgram''")
  case True
  show ?thesis
  proof (cases "deepgramModel settings")
    case None
    with True show ?thesis
      using trim_default_model default_model_not_Nil
      by (simp add: getVoiceForSettings_def str_or_def default_model_def)
  next
    case (Some m)
    have "blank m" if "m = []"
      using that by (simp add: blank_def)
    with True Some show ?thesis
      using trim_default_model default_model_not_Nil trim_eq_Nil_iff [of m]
      by (auto simp add: getVoiceForSettings_def str_or_def default_model_def)
  qed
next
  case False
  then show ?thesis
    using trim_eq_Nil_iff [of "customVoice settings"]
    by (auto simp add: getVoiceForSettings_def str_or_def)
qed

theorem getVoiceForSettings_effective_voice_witness:
  "getVoiceForSettings
     \<lparr>ttsEngine = js ''deepgram'', selectedVoice = js ''en-US-AvaNeural'',
      customVoice = js '' x '', deepgramApiKey = None, deepgramModel = Some (js ''  '')\<rparr>
     = js ''aura-asteria-en''
   \<and> getVoiceForSettings
     \<lparr>ttsEngine = js ''edge'', selectedVoice = js ''en-US-AvaNeural'',
      customVoice = js '' x '', deepgramApiKey = None, deepgramModel = None\<rparr>
     = js ''x''"
  using getVoiceForSettings_effective_voice
    [of "\<lparr>ttsEngine = js ''deepgram'', selectedVoice = js ''en-US-AvaNeural'',
      customVoice = js '' x '', deepgramApiKey = None, deepgramModel = Some (js ''  '')\<rparr>"]
    getVoiceForSettings_effective_voice
    [of "\<lparr>ttsEngine = js ''edge'', selectedVoice = js ''en-US-AvaNeural'',
      customVoice = js '' x '', deepgramApiKey = None, deepgramModel = None\<rparr>"]
  by (simp add: js_def blank_def trim_def isWhiteSpace_def)

text \<open>
  Claim C9, as amended. For every chunk of type \<^verbatim>\<open>audio\<close> pulled by the
  Generator-Backed Adapter whose payload shape is unrecognized (not a binary array, not
  a native buffer, not an object the shim converts): if the payload is truthy, the
  adapter emits one \<^verbatim>\<open>data\<close> event that carries a zero-length chunk to the \<^verbatim>\<open>data\<close>
  listeners, and it writes a warning to the console, except where the shim is installed
  and the payload is an object, which is forwarded without a warning; the consumer has
  not finished, and it pulls the next chunk if the \<^verbatim>\<open>data\<close> listeners all return
  (if one throws, the generator is closed and the session ends with \<^verbatim>\<open>error\<close>). If
  the payload is falsy (the empty string, zero, \<^verbatim>\<open>NaN\<close>, \<^verbatim>\<open>false\<close>, \<^verbatim>\<open>null\<close>,
  \<^verbatim>\<open>undefined\<close>), the chunk is dropped: nothing is emitted, nothing is written to the
  console, and the consumer pulls the next chunk.
\<close>

theorem unrecognized_payload_zero_length_chunk:
  assumes "isConsuming a" and "\<not> finished a" and "closing a = None"
      and "asyncGenerator a (pulled a) = GenYield (AsyncChunk (js ''audio'') d)"
      and "unrecognized d"
  shows "(truthy d \<longrightarrow>
            emitted (consume_resume call pf a) = emitted a @ [(js ''data'', [Chunk []])]
          \<and> console (consume_resume call pf a)
              = console a @ (if d = ObjectP \<and> BufferPolyfill pf then []
                             else [ConsoleWarn (js ''Unexpected audio data type:'')])
          \<and> invoked (consume_resume call pf a)
              = snd (forEach call (callbacks_of (js ''data'') (listeners a)) [Chunk []] (invoked a))
          \<and> \<not> finished (consume_resume call pf a)
          \<and> closing (consume_resume call pf a)
              = fst (forEach call (callbacks_of (js ''data'') (listeners a)) [Chunk []] (invoked a))
          \<and> pulled (consume_resume call pf a)
              = (if fst (forEach call (callbacks_of (js ''data'') (listeners a)) [Chunk []]
                           (invoked a)) = None
                 then Suc (pulled a) else pulled a))
       \<and> (\<not> truthy d \<longrightarrow> consume_resume call pf a = a\<lparr>pulled := Suc (pulled a)\<rparr>)"
proof (intro conjI impI)
  let ?c = "AsyncChunk (js ''audio'') d"
  assume t: "truthy d"
  then have ne: "d \<noteq> NullP" by auto
  have ad: "audioData_of pf d
      = ([], if d = ObjectP \<and> BufferPolyfill pf then []
             else [ConsoleWarn (js ''Unexpected audio data type:'')])"
    using audioData_of_unrecognized [OF assms(5), of pf] ne by auto
  have c: "chunk_type ?c = js ''audio''" "truthy (chunk_data ?c)"
    using t by simp_all
  note r = consume_resume_audio [OF assms(1-4) c, of call pf]
  from r(1) ad show "emitted (consume_resume call pf a) = emitted a @ [(js ''data'', [Chunk []])]"
    by simp
  from r(2) ad show "console (consume_resume call pf a)
      = console a @ (if d = ObjectP \<and> BufferPolyfill pf then []
                     else [ConsoleWarn (js ''Unexpected audio data type:'')])"
    by simp
  from r(3) ad show "invoked (consume_resume call pf a)
      = snd (forEach call (callbacks_of (js ''data'') (listeners a)) [Chunk []] (invoked a))"
    by simp
  from r(6) show "\<not> finished (consume_resume call pf a)" .
  from r(4) ad show "closing (consume_resume call pf a)
      = fst (forEach call (callbacks_of (js ''data'') (listeners a)) [Chunk []] (invoked a))"
    by simp
  from r(5) ad show "pulled (consume_resume call pf a)
      = (if fst (forEach call (callbacks_of (js ''data'') (listeners a)) [Chunk []]
                   (invoked a)) = None
         then Suc (pulled a) else pulled a)"
    by simp
next
  assume "\<not> truthy d"
  then have "\<not> (chunk_type (AsyncChunk (js ''audio'') d) = js ''audio''
      \<and> truthy (chunk_data (AsyncChunk (js ''audio'') d)))"
    by simp
  from consume_resume_skip [OF assms(1-4) this]
  show "consume_resume call pf a = a\<lparr>pulled := Suc (pulled a)\<rparr>" .
qed

theorem unrecognized_payload_zero_length_chunk_witness:
  "isConsuming (streamAdapter_on (js ''data'') ''onData'' example_stream)
   \<and> \<not> finished (streamAdapter_on (js ''data'') ''onData'' example_stream)
   \<and> closing (streamAdapter_on (js ''data'') ''onData'' example_stream) = None
   \<and> asyncGenerator (streamAdapter_on (js ''data'') ''onData'' example_stream)
        (pulled (streamAdapter_on (js ''data'') ''onData'' example_stream))
      = GenYield (AsyncChunk (js ''audio'') (StringP (js ''x'')))
   \<and> unrecognized (StringP (js ''x''))
   \<and> truthy (StringP (js ''x''))
   \<and> emitted (consume_resume quiet example_platform
        (streamAdapter_on (js ''data'') ''onData'' example_stream))
      = [(js ''data'', [Chunk []])]
   \<and> invoked (consume_resume quiet example_platform
        (streamAdapter_on (js ''data'') ''onData'' example_stream))
      = [(''onData'', [Chunk []])]
   \<and> console (consume_resume quiet example_platform
        (streamAdapter_on (js ''data'') ''onData'' example_stream))
      = [ConsoleWarn (js ''Unexpected audio data type:'')]
   \<and> pulled (consume_resume quiet example_platform
        (streamAdapter_on (js ''data'') ''onData'' example_stream)) = 2"
proof -
  let ?a = "streamAdapter_on (js ''data'') ''onData'' example_stream"
  let ?d = "StringP (js ''x'')"
  have st: "?a = \<lparr>listeners = [js ''data'' \<mapsto> [''onData'']], invoked = [], emitted = [],
      console = [], isConsuming = True, asyncGenerator = example_generator, pulled = 1,
      finished = False, closing = None\<rparr>"
    by (simp add: streamAdapter_on_def example_stream_def add_listener_def
        consumeAsyncGenerator_def)
  have h1: "isConsuming ?a" and h2: "\<not> finished ?a" and h3: "closing ?a = None"
    and h4: "asyncGenerator ?a (pulled ?a) = GenYield (AsyncChunk (js ''audio'') ?d)"
    by (simp_all add: st example_generator_def)
  have h5: "unrecognized ?d" and h6: "truthy ?d"
    by (simp_all add: js_def)
  have cb: "callbacks_of (js ''data'') (listeners ?a) = [''onData'']"
    and i: "invoked ?a = []" and c: "console ?a = []" and e: "emitted ?a = []"
    and p: "pulled ?a = 1"
    by (simp_all add: st callbacks_of_def)
  have f: "forEach quiet [''onData''] [Chunk []] [] = (None, [(''onData'', [Chunk []])])"
    by (simp add: quiet_def)
  from unrecognized_payload_zero_length_chunk [OF h1 h2 h3 h4 h5, of quiet example_platform] h6
  have "emitted (consume_resume quiet example_platform ?a) = emitted ?a @ [(js ''data'', [Chunk []])]
      \<and> console (consume_resume quiet example_platform ?a)
          = console ?a @ (if ?d = ObjectP \<and> BufferPolyfill example_platform then []
                          else [ConsoleWarn (js ''Unexpected audio data type:'')])
      \<and> invoked (consume_resume quiet example_platform ?a)
          = snd (forEach quiet (callbacks_of (js ''data'') (listeners ?a)) [Chunk []] (invoked ?a))
      \<and> \<not> finished (consume_resume quiet example_platform ?a)
      \<and> closing (consume_resume quiet example_platform ?a)
          = fst (forEach quiet (callbacks_of (js ''data'') (listeners ?a)) [Chunk []] (invoked ?a))
      \<and> pulled (consume_resume quiet example_platform ?a)
          = (if fst (forEach quiet (callbacks_of (js ''data'') (listeners ?a)) [Chunk []]
                       (invoked ?a)) = None
             then Suc (pulled ?a) else pulled ?a)"
    by blast
  then have r: "emitted (consume_resume quiet example_platform ?a) = [(js ''data'', [Chunk []])]"
    "console (consume_resume quiet example_platform ?a)
       = [ConsoleWarn (js ''Unexpected audio data type:'')]"
    "invoked (consume_resume quiet example_platform ?a) = [(''onData'', [Chunk []])]"
    "pulled (consume_resume quiet example_platform ?a) = 2"
    by (simp_all only: cb i c e p f fst_conv snd_conv append_Nil payload.distinct simp_thms
        if_True if_False Suc_1 [symmetric] One_nat_def [symmetric] numeral_2_eq_2)
  from h1 h2 h3 h4 h5 h6 r show ?thesis
    by (intro conjI)
qed

text \<open>
  The claim as stated fails. The first chunk of the session below is of type
  \<^verbatim>\<open>audio\<close> and carries the number zero, an unrecognized payload: it is dropped, with
  no \<^verbatim>\<open>data\<close> event and no message on the console. The second carries a plain object;
  the runtime has the shim, which answers with an empty array: the zero-length chunk is
  emitted, and nothing is written to the console.
\<close>

theorem unrecognized_payload_zero_length_chunk_counterexample:
  "result (stream_of (Inr odd_generator) [] [] :: string toStream_outcome) = Inr odd_stream
   \<and> asyncGenerator odd_stream 1 = GenYield (AsyncChunk (js ''audio'') (NumberP (Finite 0 0)))
   \<and> unrecognized (NumberP (Finite 0 0))
   \<and> emitted (universal_run quiet example_platform
        [Register (js ''data'') ''onData'', Resume] odd_stream) = []
   \<and> console (universal_run quiet example_platform
        [Register (js ''data'') ''onData'', Resume] odd_stream) = []
   \<and> asyncGenerator odd_stream 2 = GenYield (AsyncChunk (js ''audio'') ObjectP)
   \<and> unrecognized ObjectP
   \<and> emitted (universal_run quiet example_platform
        [Register (js ''data'') ''onData'', Resume, Resume] odd_stream)
      = [(js ''data'', [Chunk []])]
   \<and> console (universal_run quiet example_platform
        [Register (js ''data'') ''onData'', Resume, Resume] odd_stream) = []"
proof -
  have a: "result (stream_of (Inr odd_generator) [] [] :: string toStream_outcome) = Inr odd_stream"
    by (simp add: stream_of_def odd_stream_def)
  have g: "asyncGenerator odd_stream 1 = GenYield (AsyncChunk (js ''audio'') (NumberP (Finite 0 0)))"
    "asyncGenerator odd_stream 2 = GenYield (AsyncChunk (js ''audio'') ObjectP)"
    by (simp_all add: odd_stream_def odd_generator_def)
  have u: "unrecognized (NumberP (Finite 0 0))" "unrecognized ObjectP"
    by simp_all
  have e1: "emitted (universal_run quiet example_platform
        [Register (js ''data'') ''onData'', Resume] odd_stream) = []"
    by code_simp
  have c1: "console (universal_run quiet example_platform
        [Register (js ''data'') ''onData'', Resume] odd_stream) = []"
    by code_simp
  have e2: "emitted (universal_run quiet example_platform
        [Register (js ''data'') ''onData'', Resume, Resume] odd_stream)
      = [(js ''data'', [Chunk []])]"
    by code_simp
  have c2: "console (universal_run quiet example_platform
        [Register (js ''data'') ''onData'', Resume, Resume] odd_stream) = []"
    by code_simp
  from a g u e1 c1 e2 c2 show ?thesis
    by (intro conjI)
qed

text \<open>
  Claim C10. The HTTP-Streaming Adapter trims its credential when it is constructed: for
  every API key that consists of whitespace only, \<^verbatim>\<open>toStream\<close> raises the
  missing-credential error at once, with no request made, exactly as for an absent key.
\<close>

theorem deepgram_whitespace_credential:
  assumes "blank key"
  shows "(DeepgramTTSClient_toStream pf (new_DeepgramTTSClient (Some key) m b) text prosodyRate
            :: (thrown + 'cb deepgram_session) \<times> request list)
         = DeepgramTTSClient_toStream pf (new_DeepgramTTSClient None m b) text prosodyRate
       \<and> (DeepgramTTSClient_toStream pf (new_DeepgramTTSClient (Some key) m b) text prosodyRate
            :: (thrown + 'cb deepgram_session) \<times> request list)
         = (Inl (JsError (js ''Deepgram API key is not set. Add it in the plugin settings.'')), [])"
proof -
  have "trim key = []"
    using assms by (simp add: trim_eq_Nil_iff)
  moreover have "trim [] = []"
    by (simp add: trim_def)
  ultimately have "apiKey (new_DeepgramTTSClient (Some key) m b) = []"
    and "apiKey (new_DeepgramTTSClient None m b) = []"
    by (simp_all add: new_DeepgramTTSClient_def str_or_def)
  then show ?thesis
    by (simp add: DeepgramTTSClient_toStream_def)
qed

theorem deepgram_whitespace_credential_witness:
  "blank [0x20, 0x09, 0x3000]
   \<and> (DeepgramTTSClient_toStream example_platform
         (new_DeepgramTTSClient (Some [0x20, 0x09, 0x3000]) None None)
         (js ''hello'') None :: (thrown + string deepgram_session) \<times> request list)
     = DeepgramTTSClient_toStream example_platform (new_DeepgramTTSClient None None None)
         (js ''hello'') None
   \<and> (DeepgramTTSClient_toStream example_platform
         (new_DeepgramTTSClient (Some [0x20, 0x09, 0x3000]) None None)
         (js ''hello'') None :: (thrown + string deepgram_session) \<times> request list)
     = (Inl (JsError (js ''Deepgram API key is not set. Add it in the plugin settings.'')), [])"
proof -
  have h: "blank [0x20, 0x09, 0x3000]"
    by (simp add: blank_def isWhiteSpace_def)
  from deepgram_whitespace_credential [OF h] h show ?thesis by simp
qed


end
